theory Spec2Isabelle
  imports Complex_Main
begin

section \<open>Floating-point values\<close>

text \<open>
  The program computes with C++ \<^verbatim>\<open>float\<close>. A finite float is modelled by the real number
  it stands for: rounding, overflow and underflow are not modelled, so the arithmetic of
  the model is exact. The model has one non-finite value, \<open>NaN\<close>: as in IEEE arithmetic
  it is what 0/0 and the square root of a negative number yield, every operation
  propagates it and every comparison with it is false. The infinities are not modelled:
  the division of a nonzero number by zero, an infinity in C++, is \<open>NaN\<close> here. The
  program performs no such division: \<^verbatim>\<open>normolize\<close> divides by a length, which is zero
  only for the zero vector, and \<^verbatim>\<open>calculateTimeConflict\<close> is called with a speed that
  has failed the test \<^verbatim>\<open><= accurance\<close>.
\<close>

datatype float = Fin real | NaN

instantiation float :: "{plus, minus, uminus, times, inverse, abs, ord}"
begin

fun plus_float :: "float \<Rightarrow> float \<Rightarrow> float" where
  "plus_float (Fin a) (Fin b) = Fin (a + b)"
| "plus_float _ _ = NaN"

fun minus_float :: "float \<Rightarrow> float \<Rightarrow> float" where
  "minus_float (Fin a) (Fin b) = Fin (a - b)"
| "minus_float _ _ = NaN"

fun uminus_float :: "float \<Rightarrow> float" where
  "uminus_float (Fin a) = Fin (- a)"
| "uminus_float NaN = NaN"

fun times_float :: "float \<Rightarrow> float \<Rightarrow> float" where
  "times_float (Fin a) (Fin b) = Fin (a * b)"
| "times_float _ _ = NaN"

fun divide_float :: "float \<Rightarrow> float \<Rightarrow> float" where
  "divide_float (Fin a) (Fin b) = (if b = 0 then NaN else Fin (a / b))"
| "divide_float _ _ = NaN"

fun inverse_float :: "float \<Rightarrow> float" where
  "inverse_float (Fin a) = (if a = 0 then NaN else Fin (inverse a))"
| "inverse_float NaN = NaN"

fun abs_float :: "float \<Rightarrow> float" where
  "abs_float (Fin a) = Fin \<bar>a\<bar>"
| "abs_float NaN = NaN"

fun less_eq_float :: "float \<Rightarrow> float \<Rightarrow> bool" where
  "less_eq_float (Fin a) (Fin b) = (a \<le> b)"
| "less_eq_float _ _ = False"

fun less_float :: "float \<Rightarrow> float \<Rightarrow> bool" where
  "less_float (Fin a) (Fin b) = (a < b)"
| "less_float _ _ = False"

instance ..

end

text \<open>\<^verbatim>\<open>sqrt\<close> of \<^verbatim>\<open>cmath\<close>: NaN below zero.\<close>

fun sqrt_f :: "float \<Rightarrow> float" where
  "sqrt_f (Fin a) = (if a < 0 then NaN else Fin (sqrt a))"
| "sqrt_f NaN = NaN"

text \<open>\<^verbatim>\<open>std::min(a, b)\<close> is \<^verbatim>\<open>(b < a) ? b : a\<close>.\<close>

definition std_min :: "float \<Rightarrow> float \<Rightarrow> float" where
  "std_min a b = (if b < a then b else a)"

section \<open>Basic Vector2 class\<close>

datatype Vector2 = Vector2 (x: float) (y: float)

instantiation Vector2 :: "{plus, minus}"
begin

definition minus_Vector2 :: "Vector2 \<Rightarrow> Vector2 \<Rightarrow> Vector2" where
  "minus_Vector2 v another = Vector2 (x v - x another) (y v - y another)"

definition plus_Vector2 :: "Vector2 \<Rightarrow> Vector2 \<Rightarrow> Vector2" where
  "plus_Vector2 v another = Vector2 (x v + x another) (y v + y another)"

instance ..

end

text \<open>\<^verbatim>\<open>float operator * (const Vector2&)\<close>, the scalar product.\<close>

definition dot :: "Vector2 \<Rightarrow> Vector2 \<Rightarrow> float" where
  "dot v another = x v * x another + y v * y another"

text \<open>\<^verbatim>\<open>Vector2 operator * (float)\<close> and \<^verbatim>\<open>operator *= (float)\<close>.\<close>

definition scale :: "Vector2 \<Rightarrow> float \<Rightarrow> Vector2" where
  "scale v s = Vector2 (x v * s) (y v * s)"

definition norm_v :: "Vector2 \<Rightarrow> float" where
  "norm_v v = x v * x v + y v * y v"

definition length_v :: "Vector2 \<Rightarrow> float" where
  "length_v v = sqrt_f (norm_v v)"

text \<open>
  \<^verbatim>\<open>normolize\<close> divides by the length without a test. In the exact arithmetic of the
  model the length is zero for the zero vector only, where the result is \<open>NaN\<close> in both
  components. A float length is also zero when the squares underflow and infinite when
  they overflow; the theorem on the launch of the cue ball is kept to directions for
  which neither happens.
\<close>

definition normolize :: "Vector2 \<Rightarrow> Vector2" where
  "normolize v = (let len = length_v v in Vector2 (x v / len) (y v / len))"

section \<open>Game parameters\<close>

definition accurance :: float where "accurance = Fin 0.01"

definition width :: float where "width = Fin 15"

definition height :: float where "height = Fin 8"

definition pocketRadius :: float where "pocketRadius = Fin 0.4"

definition pocketsPositions :: "Vector2 list" where
  "pocketsPositions =
    [Vector2 (Fin (- 0.5) * width) (Fin (- 0.5) * height),
     Vector2 (Fin 0) (Fin (- 0.5) * height),
     Vector2 (Fin 0.5 * width) (Fin (- 0.5) * height),
     Vector2 (Fin (- 0.5) * width) (Fin 0.5 * height),
     Vector2 (Fin 0) (Fin 0.5 * height),
     Vector2 (Fin 0.5 * width) (Fin 0.5 * height)]"

definition ballsPositions :: "Vector2 list" where
  "ballsPositions =
    [Vector2 (Fin (- 0.3) * width) (Fin 0),
     Vector2 (Fin 0.2 * width) (Fin 0),
     Vector2 (Fin 0.25 * width) (Fin 0.05 * height),
     Vector2 (Fin 0.25 * width) (Fin (- 0.05) * height),
     Vector2 (Fin 0.3 * width) (Fin 0.1 * height),
     Vector2 (Fin 0.3 * width) (Fin 0),
     Vector2 (Fin 0.3 * width) (Fin (- 0.1) * height)]"

definition radius :: float where "radius = Fin 0.3"

definition chargeTime :: float where "chargeTime = Fin 1"

section \<open>Game state\<close>

text \<open>
  The variables of namespace \<^verbatim>\<open>Game\<close>. The two \<^verbatim>\<open>std::array<Vector2, 7>\<close> are lists;
  a state is well formed when both have their seven entries. The \<^verbatim>\<open>Table\<close> of mesh
  handles and the \<^verbatim>\<open>Scene\<close> and \<^verbatim>\<open>Engine\<close> calls only mirror the positions on screen
  and are never read back, so they are left out; the assertion of \<^verbatim>\<open>Table::init\<close>
  (every handle is null) holds at the rack reset, where \<^verbatim>\<open>deinit\<close> has just cleared
  the handles.
\<close>

record Game =
  isChargingShot :: bool
  shotChargeProgress :: float
  ballPositions :: "Vector2 list"
  ballVelocities :: "Vector2 list"

definition wellformed :: "Game \<Rightarrow> bool" where
  "wellformed g \<longleftrightarrow> length (ballPositions g) = 7 \<and> length (ballVelocities g) = 7"

definition infinity :: float where "infinity = Fin 2 * (height + width)"

definition impulse :: float where "impulse = Fin 6.0"

definition friction :: float where "friction = Fin 0.03"

definition init :: "Game \<Rightarrow> Game" where
  "init g = g\<lparr>ballPositions := ballsPositions,
              ballVelocities := replicate 7 (Vector2 (Fin 0) (Fin 0))\<rparr>"

definition deinit :: "Game \<Rightarrow> Game" where
  "deinit g = g"

text \<open>
  The state before the first call: the initialisers of the namespace variables, then
  \<^verbatim>\<open>Game::init\<close>.
\<close>

definition startGame :: Game where
  "startGame = init \<lparr>isChargingShot = False, shotChargeProgress = Fin 0,
                      ballPositions = replicate 7 (Vector2 (Fin 0) (Fin 0)),
                      ballVelocities = replicate 7 (Vector2 (Fin 0) (Fin 0))\<rparr>"

section \<open>What the source leaves to the build\<close>

text \<open>
  Two things that the physics computes are not fixed by the source alone.
  \<^item> \<^verbatim>\<open>isBorderCollesion\<close> calls \<^verbatim>\<open>abs\<close> unqualified on floats, with only \<^verbatim>\<open>cmath\<close>
    included. Whether this names the float overload or \<^verbatim>\<open>int abs(int)\<close> of the C library
    depends on the headers of the toolchain.
  \<^item> In \<^verbatim>\<open>recalculateVelocities\<close>, \<^verbatim>\<open>dir\<close> is a reference to the temporary on which
    \<^verbatim>\<open>normolize\<close> was called. The temporary is destroyed at the end of that statement,
    and every later read through \<^verbatim>\<open>dir\<close> is undefined behaviour. The model covers the
    builds in which this shows in the values that the reads yield: \<open>dirRead n k\<close> is what
    read number \<open>k\<close> yields when \<^verbatim>\<open>normolize\<close> has written \<open>n\<close>.

  Both are parameters of the physics.
\<close>

record build =
  absFn :: "float \<Rightarrow> float"
  dirRead :: "Vector2 \<Rightarrow> nat \<Rightarrow> Vector2"

text \<open>
  \<^verbatim>\<open>int abs(int)\<close> applied to a float: the argument is truncated towards zero and the
  result is a whole number. (The conversion of a value that no \<^verbatim>\<open>int\<close> holds is
  undefined in C++; the model has no bound on the whole numbers.)
\<close>

fun abs_int :: "float \<Rightarrow> float" where
  "abs_int (Fin a) = Fin (of_int \<lfloor>\<bar>a\<bar>\<rfloor>)"
| "abs_int NaN = NaN"

text \<open>
  The build in which \<^verbatim>\<open>abs\<close> is the float overload and every read of \<^verbatim>\<open>dir\<close> still
  finds the normalised vector.
\<close>

definition valueBuild :: build where
  "valueBuild = \<lparr>absFn = abs, dirRead = (\<lambda>n k. n)\<rparr>"

text \<open>
  A build in which the storage of the temporary has been reused before the last read of
  \<^verbatim>\<open>dir\<close>, which finds zeros.
\<close>

definition lostReadBuild :: build where
  "lostReadBuild =
     \<lparr>absFn = abs, dirRead = (\<lambda>n k. if k < 6 then n else Vector2 (Fin 0) (Fin 0))\<rparr>"

text \<open>
  A build in which \<^verbatim>\<open>abs\<close> is \<^verbatim>\<open>int abs(int)\<close> and every read of \<^verbatim>\<open>dir\<close> finds zeros.
\<close>

definition noExchangeBuild :: build where
  "noExchangeBuild = \<lparr>absFn = abs_int, dirRead = (\<lambda>n k. Vector2 (Fin 0) (Fin 0))\<rparr>"

section \<open>Physics\<close>

text \<open>One round of the loop of \<^verbatim>\<open>findClosestBall\<close>; the accumulator is (index, distance).\<close>

definition findClosestStep ::
  "Vector2 \<Rightarrow> nat \<Rightarrow> Vector2 list \<Rightarrow> nat \<Rightarrow> nat \<times> float \<Rightarrow> nat \<times> float" where
  "findClosestStep ballEndPosition subject ps i acc =
    (if i = subject then acc
     else if length_v (ballEndPosition - ps ! i) < Fin 2 * radius then
       (let curr_distance = length_v (ps ! subject - ps ! i) in
        if curr_distance < snd acc then (i, curr_distance) else acc)
     else acc)"

definition findClosestBall :: "Vector2 \<Rightarrow> nat \<Rightarrow> Game \<Rightarrow> nat" where
  "findClosestBall ballEndPosition subject g =
    fst (fold (findClosestStep ballEndPosition subject (ballPositions g))
           [0..<length (ballPositions g)] (subject, infinity))"

text \<open>
  \<^verbatim>\<open>normolize\<close> writes the normalised difference of the positions to a temporary, and
  \<^verbatim>\<open>dir\<close> refers to it. The reads of \<^verbatim>\<open>dir\<close> are numbered in the order of the source:
  0 for \<^verbatim>\<open>tan\<close> (computed and never used), 1 and 2 for the two scalar products, 3 and 4
  for the two tangential parts, 5 and 6 for the two velocities that are stored.
\<close>

definition recalculateVelocities :: "build \<Rightarrow> nat \<Rightarrow> nat \<Rightarrow> Game \<Rightarrow> Game" where
  "recalculateVelocities bld subject target g =
    (let dir = dirRead bld (normolize (ballPositions g ! target - ballPositions g ! subject));
         tan = Vector2 (y (dir 0)) (x (dir 0));
         dirSubjectVel = dot (ballVelocities g ! subject) (dir 1);
         dirTargetVel = dot (ballVelocities g ! target) (dir 2);
         tanSubjectVel = ballVelocities g ! subject - scale (dir 3) dirSubjectVel;
         tanTargetVel = ballVelocities g ! target - scale (dir 4) dirTargetVel
     in g\<lparr>ballVelocities :=
            (ballVelocities g)[subject := tanSubjectVel + scale (dir 5) dirTargetVel,
                               target := tanTargetVel + scale (dir 6) dirSubjectVel]\<rparr>)"

definition calculateTimeConflict :: "float \<Rightarrow> float \<Rightarrow> float" where
  "calculateTimeConflict distance velocityModule =
    (distance - Fin 2 * radius) / velocityModule"

primrec inPocketLoop :: "Vector2 \<Rightarrow> Vector2 list \<Rightarrow> bool" where
  "inPocketLoop ballEndPos [] = False"
| "inPocketLoop ballEndPos (pocketPos # rest) =
    (if length_v (ballEndPos - pocketPos) \<le> pocketRadius + radius / Fin 4 then True
     else inPocketLoop ballEndPos rest)"

definition inPocket :: "Vector2 \<Rightarrow> bool" where
  "inPocket ballEndPos = inPocketLoop ballEndPos pocketsPositions"

text \<open>The body of the loop of \<^verbatim>\<open>reduceVelocities\<close>, for one velocity.\<close>

definition reduceVelocity :: "float \<Rightarrow> Vector2 \<Rightarrow> Vector2" where
  "reduceVelocity dt velocity =
    (if length_v velocity < accurance then velocity
     else
       (let isVxPositive = Fin 0 \<le> x velocity;
            isVyPositive = Fin 0 \<le> y velocity;
            vx = x velocity -
              (if isVxPositive then friction * dt * Fin 9.81 else - friction * dt * Fin 9.81);
            vy = y velocity -
              (if isVyPositive then friction * dt * Fin 9.81 else - friction * dt * Fin 9.81);
            vx' = (if vx < Fin 0 \<and> isVxPositive \<or> Fin 0 < vx \<and> \<not> isVxPositive
                   then Fin 0 else vx);
            vy' = (if vy < Fin 0 \<and> isVyPositive \<or> Fin 0 < vy \<and> \<not> isVyPositive
                   then Fin 0 else vy)
        in Vector2 vx' vy'))"

definition reduceVelocities :: "float \<Rightarrow> Game \<Rightarrow> Game" where
  "reduceVelocities dt g = g\<lparr>ballVelocities := map (reduceVelocity dt) (ballVelocities g)\<rparr>"

text \<open>
  Returns the flag together with the state, whose velocity \<open>i\<close> may have been flipped.
  \<^verbatim>\<open>abs\<close> is the function that the build gives it.
\<close>

definition isBorderCollesion :: "build \<Rightarrow> Vector2 \<Rightarrow> nat \<Rightarrow> Game \<Rightarrow> bool \<times> Game" where
  "isBorderCollesion bld ballPos i g =
    (let hitX = absFn bld (absFn bld (x ballPos) - width / Fin 2) \<le> radius + accurance;
         g1 = (if hitX
               then g\<lparr>ballVelocities := (ballVelocities g)
                        [i := Vector2 (- x (ballVelocities g ! i)) (y (ballVelocities g ! i))]\<rparr>
               else g);
         hitY = absFn bld (absFn bld (y ballPos) - height / Fin 2) \<le> radius + accurance;
         g2 = (if hitY
               then g1\<lparr>ballVelocities := (ballVelocities g1)
                        [i := Vector2 (x (ballVelocities g1 ! i)) (- y (ballVelocities g1 ! i))]\<rparr>
               else g1)
     in (hitX \<or> hitY, g2))"

primrec isFreezeLoop :: "Vector2 list \<Rightarrow> bool" where
  "isFreezeLoop [] = True"
| "isFreezeLoop (velocities # rest) =
    (if length_v velocities < accurance then False else isFreezeLoop rest)"

definition isFreeze :: "Game \<Rightarrow> bool" where
  "isFreeze g = isFreezeLoop (ballVelocities g)"

text \<open>
  One round of the loop of \<^verbatim>\<open>physicLoop\<close> either leaves the function (the cue ball was
  pocketed and the rack is reset) or goes on with a state and the set \<^verbatim>\<open>undoneBalls\<close>.
\<close>

datatype loop = Return Game | Next Game "nat set"

definition physicStep :: "build \<Rightarrow> float \<Rightarrow> nat \<Rightarrow> Game \<Rightarrow> nat set \<Rightarrow> loop" where
  "physicStep bld dt i g undoneBalls =
    (if length_v (ballVelocities g ! i) \<le> accurance \<or> i \<in> undoneBalls then Next g undoneBalls
     else
       (let ballEndPos = Vector2 (x (ballPositions g ! i) + x (ballVelocities g ! i) * dt)
                                 (y (ballPositions g ! i) + y (ballVelocities g ! i) * dt)
        in
        if inPocket ballEndPos then
          (if i = 0 then Return (init (deinit g))
           else Next (g\<lparr>ballPositions := (ballPositions g)[i := Vector2 infinity infinity],
                        ballVelocities := (ballVelocities g)[i := Vector2 (Fin 0) (Fin 0)]\<rparr>)
                  undoneBalls)
        else
          (case isBorderCollesion bld ballEndPos i g of
            (True, g1) \<Rightarrow> Next g1 undoneBalls
          | (False, g1) \<Rightarrow>
              (let j = findClosestBall ballEndPos i g1 in
               if j = i then Next (g1\<lparr>ballPositions := (ballPositions g1)[i := ballEndPos]\<rparr>)
                               undoneBalls
               else
                 (let distance = length_v (ballPositions g1 ! i - ballPositions g1 ! j);
                      dtau = calculateTimeConflict distance (length_v (ballVelocities g1 ! i));
                      conflictSubjectPos =
                        Vector2 (x (ballPositions g1 ! i) + x (ballVelocities g1 ! i) * dtau)
                                (y (ballPositions g1 ! i) + y (ballVelocities g1 ! i) * dtau);
                      g2 = recalculateVelocities bld i j g1;
                      g3 = g2\<lparr>ballPositions := (ballPositions g2)
                             [i := Vector2
                                (x conflictSubjectPos + x (ballVelocities g2 ! i) * (dt - dtau))
                                (y conflictSubjectPos + y (ballVelocities g2 ! i) * (dt - dtau))]\<rparr>;
                      g4 = g3\<lparr>ballPositions := (ballPositions g3)
                             [j := Vector2
                                (x (ballPositions g3 ! j) + x (ballVelocities g3 ! j) * (dt - dtau))
                                (y (ballPositions g3 ! j) + y (ballVelocities g3 ! j) * (dt - dtau))]\<rparr>
                  in Next g4 (insert i (insert j undoneBalls)))))))"

primrec physicFor :: "build \<Rightarrow> float \<Rightarrow> nat list \<Rightarrow> Game \<Rightarrow> nat set \<Rightarrow> loop" where
  "physicFor bld dt [] g undoneBalls = Next g undoneBalls"
| "physicFor bld dt (i # rest) g undoneBalls =
    (case physicStep bld dt i g undoneBalls of
      Return g' \<Rightarrow> Return g'
    | Next g' undoneBalls' \<Rightarrow> physicFor bld dt rest g' undoneBalls')"

definition physicLoop :: "build \<Rightarrow> float \<Rightarrow> Game \<Rightarrow> Game" where
  "physicLoop bld dt g =
    (if isFreeze g then g
     else
       (case physicFor bld dt [0..<length (ballVelocities g)] g {} of
         Return g' \<Rightarrow> g'
       | Next g' undoneBalls \<Rightarrow> reduceVelocities dt g'))"

definition update :: "build \<Rightarrow> float \<Rightarrow> Game \<Rightarrow> Game" where
  "update bld dt g =
    (let g1 = physicLoop bld dt g in
     if isChargingShot g1
     then g1\<lparr>shotChargeProgress := std_min (shotChargeProgress g1 + dt / chargeTime) (Fin 1)\<rparr>
     else g1)"

definition mouseButtonPressed :: "float \<Rightarrow> float \<Rightarrow> Game \<Rightarrow> Game" where
  "mouseButtonPressed mx my g = g\<lparr>isChargingShot := True\<rparr>"

definition mouseButtonReleased :: "float \<Rightarrow> float \<Rightarrow> Game \<Rightarrow> Game" where
  "mouseButtonReleased mx my g =
    (let g1 =
       (if length_v (ballVelocities g ! 0) < Fin 0.01
        then g\<lparr>ballVelocities := (ballVelocities g)
                 [0 := scale (normolize (Vector2 (mx - x (ballPositions g ! 0))
                                                 (my - y (ballPositions g ! 0))))
                             (impulse * shotChargeProgress g)]\<rparr>
        else g)
     in g1\<lparr>isChargingShot := False, shotChargeProgress := Fin 0\<rparr>)"

section \<open>Example states\<close>

text \<open>The rack with every ball rolling at speed 1 along the long side.\<close>

definition rollingGame :: Game where
  "rollingGame = startGame\<lparr>ballVelocities := replicate 7 (Vector2 (Fin 1) (Fin 0))\<rparr>"

text \<open>The rack after a full charge: the button is held and the progress has reached 1.\<close>

definition chargedGame :: Game where
  "chargedGame = startGame\<lparr>isChargingShot := True, shotChargeProgress := Fin 1\<rparr>"

text \<open>The cue ball half a unit below the upper middle pocket, rolling towards it.\<close>

definition cuePocketGame :: Game where
  "cuePocketGame = startGame
     \<lparr>ballPositions := ballsPositions[0 := Vector2 (Fin 0) (Fin 3.5)],
      ballVelocities := (replicate 7 (Vector2 (Fin 0) (Fin 0)))[0 := Vector2 (Fin 0) (Fin 1)]\<rparr>"

text \<open>The cue ball rolls along the long side into ball 1, which rests two radii ahead.\<close>

definition headOnGame :: Game where
  "headOnGame = startGame
     \<lparr>ballPositions := ballsPositions[0 := Vector2 (Fin 2.4) (Fin 0)],
      ballVelocities := (replicate 7 (Vector2 (Fin 0) (Fin 0)))[0 := Vector2 (Fin 1) (Fin 0)]\<rparr>"

section \<open>The calls of the engine\<close>

text \<open>
  The engine drives the game through \<^verbatim>\<open>update\<close>, \<^verbatim>\<open>mouseButtonPressed\<close> and
  \<^verbatim>\<open>mouseButtonReleased\<close>; a run is a list of such calls, and the game state can be
  observed after each of them.
\<close>

datatype event = Update float | MouseButtonPressed float float | MouseButtonReleased float float

primrec handle :: "build \<Rightarrow> event \<Rightarrow> Game \<Rightarrow> Game" where
  "handle bld (Update dt) g = update bld dt g"
| "handle bld (MouseButtonPressed mx my) g = mouseButtonPressed mx my g"
| "handle bld (MouseButtonReleased mx my) g = mouseButtonReleased mx my g"

primrec nonnegative_dt :: "event \<Rightarrow> bool" where
  "nonnegative_dt (Update dt) = (Fin 0 \<le> dt)"
| "nonnegative_dt (MouseButtonPressed mx my) = True"
| "nonnegative_dt (MouseButtonReleased mx my) = True"

primrec run :: "build \<Rightarrow> event list \<Rightarrow> Game \<Rightarrow> Game" where
  "run bld [] g = g"
| "run bld (e # es) g = run bld es (handle bld e g)"

text \<open>The state carried by the result of a round, whichever way the loop goes on.\<close>

primrec loopGame :: "loop \<Rightarrow> Game" where
  "loopGame (Return g) = g"
| "loopGame (Next g undoneBalls) = g"

text \<open>Press, hold for 1.4 seconds in two ticks, release towards the right border, tick.\<close>

definition holdAndRelease :: "event list" where
  "holdAndRelease =
     [MouseButtonPressed (Fin 0) (Fin 0), Update (Fin 0.7), Update (Fin 0.7),
      MouseButtonReleased (Fin 7.5) (Fin 0), Update (Fin 0.7)]"

section \<open>Finite values and the perpendicular formulation of the collision\<close>

text \<open>\<^verbatim>\<open>std::isfinite\<close>: the value is a number.\<close>

fun isfinite :: "float \<Rightarrow> bool" where
  "isfinite (Fin a) = True"
| "isfinite NaN = False"

definition finite_v :: "Vector2 \<Rightarrow> bool" where
  "finite_v v \<longleftrightarrow> isfinite (x v) \<and> isfinite (y v)"

text \<open>
  The pair collision in the words of the specification, with the tangent corrected: the
  velocities are decomposed along the unit normal \<open>n\<close> from subject to target and along
  its true perpendicular \<open>t = (-n.y, n.x)\<close>; each ball keeps its tangential part and takes
  the normal part of the other.
\<close>

definition recalculateVelocities_perp :: "nat \<Rightarrow> nat \<Rightarrow> Game \<Rightarrow> Game" where
  "recalculateVelocities_perp subject target g =
    (let n = normolize (ballPositions g ! target - ballPositions g ! subject);
         t = Vector2 (- y n) (x n);
         v_i = ballVelocities g ! subject;
         v_j = ballVelocities g ! target
     in g\<lparr>ballVelocities :=
            (ballVelocities g)[subject := scale t (dot v_i t) + scale n (dot v_j n),
                               target := scale t (dot v_j t) + scale n (dot v_i n)]\<rparr>)"

text \<open>
  Ball 1 rolls into the right border while ball 2, half a unit behind it, rolls after it.
\<close>

definition borderPairGame :: Game where
  "borderPairGame = startGame
     \<lparr>ballPositions := ballsPositions[1 := Vector2 (Fin 7.1) (Fin 0), 2 := Vector2 (Fin 6.6) (Fin 0)],
      ballVelocities := (replicate 7 (Vector2 (Fin 0) (Fin 0)))
         [1 := Vector2 (Fin 1) (Fin 0), 2 := Vector2 (Fin 1) (Fin 0)]\<rparr>"

section \<open>Pocketed balls\<close>

text \<open>A ball is pocketed-out when it is parked at the sentinel with zero velocity.\<close>

definition pocketedOut :: "nat \<Rightarrow> Game \<Rightarrow> bool" where
  "pocketedOut k g \<longleftrightarrow>
     ballPositions g ! k = Vector2 infinity infinity \<and> ballVelocities g ! k = Vector2 (Fin 0) (Fin 0)"

text \<open>The candidate end position of ball \<open>i\<close>, as \<^verbatim>\<open>physicLoop\<close> computes it.\<close>

definition ballEndPos :: "float \<Rightarrow> Game \<Rightarrow> nat \<Rightarrow> Vector2" where
  "ballEndPos dt g i =
     Vector2 (x (ballPositions g ! i) + x (ballVelocities g ! i) * dt)
             (y (ballPositions g ! i) + y (ballVelocities g ! i) * dt)"

text \<open>
  The two tests of \<^verbatim>\<open>findClosestBall\<close>, for subject \<open>i\<close> and a partner parked at the
  sentinel: the end position of \<open>i\<close> is within two radii of the sentinel, and \<open>i\<close> is now
  closer than \<^verbatim>\<open>infinity\<close> to it.
\<close>

definition reachesSentinel :: "float \<Rightarrow> Game \<Rightarrow> nat \<Rightarrow> bool" where
  "reachesSentinel dt g i \<longleftrightarrow>
     length_v (ballEndPos dt g i - Vector2 infinity infinity) < Fin 2 * radius
     \<and> length_v (ballPositions g ! i - Vector2 infinity infinity) < infinity"

text \<open>No ball that the loop processes passes the two tests.\<close>

definition sentinelOutOfReach :: "float \<Rightarrow> Game \<Rightarrow> bool" where
  "sentinelOutOfReach dt g \<longleftrightarrow>
     (\<forall>i\<in>{0..<7}. \<not> length_v (ballVelocities g ! i) \<le> accurance \<longrightarrow> \<not> reachesSentinel dt g i)"

text \<open>The tick does not pocket the cue ball, so the rack is not reset.\<close>

definition cueStays :: "float \<Rightarrow> Game \<Rightarrow> bool" where
  "cueStays dt g \<longleftrightarrow>
     length_v (ballVelocities g ! 0) \<le> accurance \<or> \<not> inPocket (ballEndPos dt g 0)"

text \<open>
  A run during which the rack is kept: at every \<^verbatim>\<open>update\<close> the two conditions above
  hold.
\<close>

fun rackKept :: "build \<Rightarrow> event list \<Rightarrow> Game \<Rightarrow> bool" where
  "rackKept bld [] g = True"
| "rackKept bld (Update dt # es) g =
     (sentinelOutOfReach dt g \<and> cueStays dt g \<and> rackKept bld es (update bld dt g))"
| "rackKept bld (e # es) g = rackKept bld es (handle bld e g)"

definition onTable :: "Vector2 \<Rightarrow> bool" where
  "onTable p \<longleftrightarrow> \<bar>x p\<bar> \<le> width / Fin 2 \<and> \<bar>y p\<bar> \<le> height / Fin 2"

text \<open>
  What the search of the closest ball has found so far: a distance that is
  \<^verbatim>\<open>infinity\<close> or below it and, when the index is not the subject, a ball that passed
  both tests.
\<close>

definition selected :: "Vector2 \<Rightarrow> nat \<Rightarrow> Vector2 list \<Rightarrow> nat \<times> float \<Rightarrow> bool" where
  "selected e s ps acc \<longleftrightarrow>
     (snd acc = infinity \<or> snd acc < infinity)
     \<and> (fst acc \<noteq> s \<longrightarrow> fst acc < length ps
          \<and> length_v (e - ps ! fst acc) < Fin 2 * radius
          \<and> length_v (ps ! s - ps ! fst acc) < infinity)"

text \<open>Ball 1 is pocketed; the cue ball rolls on the table.\<close>

definition pocketedGame :: Game where
  "pocketedGame = startGame
     \<lparr>ballPositions := ballsPositions[1 := Vector2 infinity infinity],
      ballVelocities := (replicate 7 (Vector2 (Fin 0) (Fin 0)))[0 := Vector2 (Fin 1) (Fin 0)]\<rparr>"

text \<open>Ball 1 is pocketed; ball 2 is off the table, one unit from the sentinel, rolling to it.\<close>

definition sentinelGame :: Game where
  "sentinelGame = startGame
     \<lparr>ballPositions := ballsPositions[1 := Vector2 infinity infinity, 2 := Vector2 (Fin 45) (Fin 46)],
      ballVelocities := (replicate 7 (Vector2 (Fin 0) (Fin 0)))[2 := Vector2 (Fin 1) (Fin 0)]\<rparr>"



section \<open>Facts about the arithmetic\<close>

lemma float_less_imp_le: "(a::float) < b \<Longrightarrow> a \<le> b"
  by (cases a; cases b) simp_all

lemma length_v_Fin: "length_v (Vector2 (Fin a) (Fin b)) = Fin (sqrt (a * a + b * b))"
  by (simp add: length_v_def norm_v_def not_less)

lemma length_v_zero: "length_v (Vector2 (Fin 0) (Fin 0)) = Fin 0"
  by (simp add: length_v_Fin)

lemma length_v_x_axis: "length_v (Vector2 (Fin a) (Fin 0)) = Fin \<bar>a\<bar>"
  by (simp add: length_v_Fin)

lemma length_v_y_axis: "length_v (Vector2 (Fin 0) (Fin b)) = Fin \<bar>b\<bar>"
  by (simp add: length_v_Fin)

lemma Fin_sqrt_le: "0 \<le> c \<Longrightarrow> Fin (sqrt u) \<le> Fin c \<longleftrightarrow> u \<le> c * c"
  using real_sqrt_le_iff [of u "c * c"] by simp

lemma Fin_sqrt_less: "0 \<le> c \<Longrightarrow> Fin (sqrt u) < Fin c \<longleftrightarrow> u < c * c"
  using real_sqrt_less_iff [of u "c * c"] by simp

lemma float_le_not_less: "(a::float) \<le> b \<Longrightarrow> \<not> b < a"
  by (cases a; cases b) simp_all

lemma float_mult_assoc: "(a::float) * b * c = a * (b * c)"
  by (cases a; cases b; cases c) simp_all

lemma scale_scale: "scale (scale v a) b = scale v (a * b)"
  by (simp add: scale_def float_mult_assoc)

section \<open>Facts about the loops and the example states\<close>

lemma isFreezeLoop_iff: "isFreezeLoop vs \<longleftrightarrow> (\<forall>v\<in>set vs. \<not> length_v v < accurance)"
  by (induction vs) simp_all

lemma startGame_simps:
  "ballVelocities startGame = replicate 7 (Vector2 (Fin 0) (Fin 0))"
  "ballPositions startGame = ballsPositions"
  "isChargingShot startGame = False"
  "shotChargeProgress startGame = Fin 0"
  by (simp_all add: startGame_def init_def)

lemma wellformed_startGame: "wellformed startGame"
  by (simp add: wellformed_def startGame_simps ballsPositions_def)

lemma normolize_x_axis: "0 < a \<Longrightarrow> normolize (Vector2 (Fin a) (Fin 0)) = Vector2 (Fin 1) (Fin 0)"
  by (simp add: normolize_def length_v_x_axis)

lemma length_v_le: "0 \<le> c \<Longrightarrow> length_v (Vector2 (Fin a) (Fin b)) \<le> Fin c \<longleftrightarrow> a * a + b * b \<le> c * c"
  using Fin_sqrt_le [of c "a * a + b * b"] by (simp add: length_v_Fin)

lemma length_v_less: "0 \<le> c \<Longrightarrow> length_v (Vector2 (Fin a) (Fin b)) < Fin c \<longleftrightarrow> a * a + b * b < c * c"
  using Fin_sqrt_less [of c "a * a + b * b"] by (simp add: length_v_Fin)

lemmas geometry = length_v_le length_v_less length_v_x_axis minus_Vector2_def plus_Vector2_def
  width_def height_def radius_def accurance_def pocketRadius_def infinity_def

lemma upt_7: "[0..<7] = [0, 1, 2, 3, 4, 5, 6]"
  by (simp add: upt_rec)

lemma chargedGame_simps:
  "ballVelocities chargedGame = replicate 7 (Vector2 (Fin 0) (Fin 0))"
  "ballPositions chargedGame = ballsPositions"
  "shotChargeProgress chargedGame = Fin 1"
  by (simp_all add: chargedGame_def startGame_def init_def)

lemma wellformed_chargedGame: "wellformed chargedGame"
  by (simp add: wellformed_def chargedGame_simps ballsPositions_def)

section \<open>A tick in which every ball is slow\<close>

lemma physicStep_slow:
  "length_v (ballVelocities g ! i) \<le> accurance \<Longrightarrow> physicStep bld dt i g u = Next g u"
  by (simp add: physicStep_def)

lemma physicFor_slow:
  "\<forall>i\<in>set is. length_v (ballVelocities g ! i) \<le> accurance \<Longrightarrow> physicFor bld dt is g u = Next g u"
  by (induction "is") (simp_all add: physicStep_slow)

lemma reduceVelocities_slow:
  "\<forall>v\<in>set (ballVelocities g). length_v v < accurance \<Longrightarrow> reduceVelocities dt g = g"
  by (simp add: reduceVelocities_def reduceVelocity_def map_idI)

text \<open>
  Claim C10: in a state where all seven balls have \<open>|v| < \<epsilon>\<close>, \<^verbatim>\<open>isFreeze\<close> returns false,
  and \<^verbatim>\<open>update\<close> leaves every position and every velocity as it was (each ball is skipped
  by the speed threshold of the loop and by the one of the friction); it does not touch
  the charging flag either, so only the progress can change. This holds in every build.
\<close>

theorem all_slow_update_frame:
  assumes "wellformed g" and "\<forall>v\<in>set (ballVelocities g). length_v v < accurance"
  shows "\<not> isFreeze g \<and> ballPositions (update bld dt g) = ballPositions g
         \<and> ballVelocities (update bld dt g) = ballVelocities g
         \<and> isChargingShot (update bld dt g) = isChargingShot g"
proof -
  from assms(1) have "ballVelocities g \<noteq> []" by (auto simp: wellformed_def)
  with assms(2) have nf: "\<not> isFreeze g"
    by (cases "ballVelocities g") (simp_all add: isFreeze_def)
  have "\<forall>i\<in>set [0..<length (ballVelocities g)]. length_v (ballVelocities g ! i) \<le> accurance"
    using assms(2) by (simp add: float_less_imp_le)
  then have "physicFor bld dt [0..<length (ballVelocities g)] g {} = Next g {}"
    by (rule physicFor_slow)
  then have "physicLoop bld dt g = g"
    using nf assms(2) by (simp add: physicLoop_def reduceVelocities_slow)
  then show ?thesis using nf by (simp add: update_def Let_def)
qed

theorem all_slow_update_frame_witness:
  "wellformed startGame
   \<and> list_all (\<lambda>v. length_v v < accurance) (ballVelocities startGame)
   \<and> \<not> isFreeze startGame
   \<and> ballPositions (update valueBuild (Fin (1 / 60)) startGame) = ballPositions startGame
   \<and> ballVelocities (update valueBuild (Fin (1 / 60)) startGame) = ballVelocities startGame
   \<and> isChargingShot (update valueBuild (Fin (1 / 60)) startGame) = isChargingShot startGame"
proof -
  have slow: "\<forall>v\<in>set (ballVelocities startGame). length_v v < accurance"
    by (simp add: startGame_simps length_v_zero accurance_def)
  show ?thesis
    using all_slow_update_frame [OF wellformed_startGame slow, where bld = valueBuild and dt = "Fin (1 / 60)"]
      wellformed_startGame slow by (simp add: list_all_iff)
qed

section \<open>The freeze check\<close>

text \<open>
  Claim C1 has \<^verbatim>\<open>isFreeze\<close> true exactly when some ball is below the threshold. The
  loop of \<^verbatim>\<open>isFreeze\<close> returns false at the first ball below the threshold and true
  when it finds none: on the rack at rest, where every ball is below the threshold,
  \<^verbatim>\<open>isFreeze\<close> is false; with all seven balls rolling it is true, and \<^verbatim>\<open>physicLoop\<close>
  returns at once, so that no ball moves.
\<close>

theorem isFreeze_rack_at_rest:
  "list_all (\<lambda>v. length_v v < accurance) (ballVelocities startGame)
   \<and> \<not> isFreeze startGame
   \<and> list_all (\<lambda>v. \<not> length_v v < accurance) (ballVelocities rollingGame)
   \<and> isFreeze rollingGame
   \<and> physicLoop valueBuild (Fin (1 / 60)) rollingGame = rollingGame"
proof -
  have rest: "list_all (\<lambda>v. length_v v < accurance) (ballVelocities startGame)"
    by (simp add: startGame_simps length_v_zero accurance_def list_all_iff)
  have rolling: "list_all (\<lambda>v. \<not> length_v v < accurance) (ballVelocities rollingGame)"
    by (simp add: rollingGame_def length_v_x_axis accurance_def list_all_iff)
  from rest have "\<not> isFreeze startGame"
    by (simp add: isFreeze_def isFreezeLoop_iff list_all_iff startGame_simps)
  moreover from rolling have "isFreeze rollingGame"
    by (simp add: isFreeze_def isFreezeLoop_iff list_all_iff)
  ultimately show ?thesis using rest rolling by (simp add: physicLoop_def)
qed

section \<open>Pocketing the cue ball\<close>

text \<open>
  Claim C3: in a tick that reaches the pocket test of the cue ball (the physics step is
  not skipped and the cue ball is faster than the threshold) and in which the test
  succeeds at the candidate end position, the first round of the loop resets the rack
  and leaves \<^verbatim>\<open>physicLoop\<close>: no other ball is processed and no friction is applied. After
  \<^verbatim>\<open>update\<close> every position is the one of the parameter template and every velocity is
  zero. This holds in every build: the tick returns before any border test or collision.
\<close>

theorem cue_pocket_resets:
  assumes "wellformed g" and "\<not> isFreeze g"
    and "\<not> length_v (ballVelocities g ! 0) \<le> accurance"
    and "inPocket (Vector2 (x (ballPositions g ! 0) + x (ballVelocities g ! 0) * dt)
                           (y (ballPositions g ! 0) + y (ballVelocities g ! 0) * dt))"
  shows "physicStep bld dt 0 g {} = Return (init g)
         \<and> physicLoop bld dt g = init g
         \<and> ballPositions (update bld dt g) = ballsPositions
         \<and> ballVelocities (update bld dt g) = replicate 7 (Vector2 (Fin 0) (Fin 0))"
proof -
  have step: "physicStep bld dt 0 g {} = Return (init g)"
    using assms(3,4) by (simp add: physicStep_def Let_def deinit_def)
  have "length (ballVelocities g) = 7" using assms(1) by (simp add: wellformed_def)
  then have "physicLoop bld dt g = init g"
    using assms(2) step by (simp add: physicLoop_def upt_7)
  then show ?thesis using step by (simp add: update_def Let_def init_def)
qed

lemma cuePocketGame_simps:
  "ballVelocities cuePocketGame = (replicate 7 (Vector2 (Fin 0) (Fin 0)))[0 := Vector2 (Fin 0) (Fin 1)]"
  "ballPositions cuePocketGame = ballsPositions[0 := Vector2 (Fin 0) (Fin 3.5)]"
  by (simp_all add: cuePocketGame_def)

theorem cue_pocket_resets_witness:
  "wellformed cuePocketGame \<and> \<not> isFreeze cuePocketGame
   \<and> \<not> length_v (ballVelocities cuePocketGame ! 0) \<le> accurance
   \<and> inPocket (Vector2
        (x (ballPositions cuePocketGame ! 0) + x (ballVelocities cuePocketGame ! 0) * Fin 0.5)
        (y (ballPositions cuePocketGame ! 0) + y (ballVelocities cuePocketGame ! 0) * Fin 0.5))
   \<and> physicLoop valueBuild (Fin 0.5) cuePocketGame = init cuePocketGame
   \<and> ballPositions (update valueBuild (Fin 0.5) cuePocketGame) = ballsPositions
   \<and> ballVelocities (update valueBuild (Fin 0.5) cuePocketGame) = replicate 7 (Vector2 (Fin 0) (Fin 0))"
proof -
  have wf: "wellformed cuePocketGame"
    by (simp add: wellformed_def cuePocketGame_simps ballsPositions_def)
  have nf: "\<not> isFreeze cuePocketGame"
    by (simp add: isFreeze_def cuePocketGame_simps numeral_eq_Suc length_v_y_axis
        length_v_zero accurance_def)
  have fast: "\<not> length_v (ballVelocities cuePocketGame ! 0) \<le> accurance"
    by (simp add: cuePocketGame_simps numeral_eq_Suc length_v_y_axis accurance_def)
  have pocket: "inPocket (Vector2
        (x (ballPositions cuePocketGame ! 0) + x (ballVelocities cuePocketGame ! 0) * Fin 0.5)
        (y (ballPositions cuePocketGame ! 0) + y (ballVelocities cuePocketGame ! 0) * Fin 0.5))"
    by (simp add: cuePocketGame_simps ballsPositions_def numeral_eq_Suc inPocket_def
        pocketsPositions_def width_def height_def minus_Vector2_def length_v_Fin
        Fin_sqrt_le pocketRadius_def radius_def)
  show ?thesis
    using cue_pocket_resets [OF wf nf fast pocket, where bld = valueBuild] wf nf fast pocket by simp
qed

section \<open>Releasing the mouse button\<close>

text \<open>
  Claim C4, as stated (after every release with a slow cue ball the velocity is the
  normalised direction times impulse times progress), fails for a release on the cue
  ball itself: the direction is the zero vector, its normalisation divides zero by
  zero, and the velocity stored is not a number, so that its length is not impulse times
  progress.
\<close>

theorem release_on_cue_counterexample:
  "length_v (ballVelocities chargedGame ! 0) < Fin 0.01
   \<and> Vector2 (Fin (- 4.5)) (Fin 0) = ballPositions chargedGame ! 0
   \<and> ballVelocities (mouseButtonReleased (Fin (- 4.5)) (Fin 0) chargedGame) ! 0 = Vector2 NaN NaN
   \<and> length_v (ballVelocities (mouseButtonReleased (Fin (- 4.5)) (Fin 0) chargedGame) ! 0)
       \<noteq> impulse * shotChargeProgress chargedGame"
  by (simp add: chargedGame_simps ballsPositions_def width_def numeral_eq_Suc length_v_zero
      mouseButtonReleased_def normolize_def scale_def impulse_def length_v_def norm_v_def)

text \<open>
  Claim C4, amended: for a release whose direction from the cue ball is not the zero
  vector and is within the range of the float arithmetic (length at least 1 / 10 ^ 18,
  components at most 10 ^ 18), a cue ball slower than 0.01 gets the velocity
  direction / length times impulse times progress, in exact arithmetic. For every
  release, a cue ball at speed 0.01 or more keeps its velocity, and the charging flag
  and the progress are cleared.
\<close>

theorem mouseButtonReleased_launch:
  assumes "wellformed g"
  shows "(ballPositions g ! 0 = Vector2 (Fin px) (Fin py) \<and> shotChargeProgress g = Fin c
          \<and> 1 / 10 ^ 18 \<le> sqrt ((a - px) * (a - px) + (b - py) * (b - py))
          \<and> \<bar>a - px\<bar> \<le> 10 ^ 18 \<and> \<bar>b - py\<bar> \<le> 10 ^ 18
          \<and> length_v (ballVelocities g ! 0) < Fin 0.01 \<longrightarrow>
            ballVelocities (mouseButtonReleased (Fin a) (Fin b) g) ! 0 =
              Vector2
                (Fin ((a - px) / sqrt ((a - px) * (a - px) + (b - py) * (b - py)) * (6 * c)))
                (Fin ((b - py) / sqrt ((a - px) * (a - px) + (b - py) * (b - py)) * (6 * c))))
         \<and> (Fin 0.01 \<le> length_v (ballVelocities g ! 0) \<longrightarrow>
            ballVelocities (mouseButtonReleased mx my g) ! 0 = ballVelocities g ! 0)
         \<and> \<not> isChargingShot (mouseButtonReleased mx my g)
         \<and> shotChargeProgress (mouseButtonReleased mx my g) = Fin 0"
proof -
  have len: "0 < length (ballVelocities g)" using assms by (simp add: wellformed_def)
  have launch: "ballVelocities (mouseButtonReleased (Fin a) (Fin b) g) ! 0 =
              Vector2
                (Fin ((a - px) / sqrt ((a - px) * (a - px) + (b - py) * (b - py)) * (6 * c)))
                (Fin ((b - py) / sqrt ((a - px) * (a - px) + (b - py) * (b - py)) * (6 * c)))"
    if h: "ballPositions g ! 0 = Vector2 (Fin px) (Fin py) \<and> shotChargeProgress g = Fin c
          \<and> 1 / 10 ^ 18 \<le> sqrt ((a - px) * (a - px) + (b - py) * (b - py))
          \<and> \<bar>a - px\<bar> \<le> 10 ^ 18 \<and> \<bar>b - py\<bar> \<le> 10 ^ 18
          \<and> length_v (ballVelocities g ! 0) < Fin 0.01"
  proof -
    have "(0::real) < 1 / 10 ^ 18" by simp
    with h have pos: "sqrt ((a - px) * (a - px) + (b - py) * (b - py)) \<noteq> 0" by linarith
    show ?thesis
      using len pos h
      by (simp add: mouseButtonReleased_def Let_def normolize_def length_v_Fin scale_def
          impulse_def)
  qed
  have keep: "ballVelocities (mouseButtonReleased mx my g) ! 0 = ballVelocities g ! 0"
    if "Fin 0.01 \<le> length_v (ballVelocities g ! 0)"
  proof -
    from that have "\<not> length_v (ballVelocities g ! 0) < Fin 0.01" by (rule float_le_not_less)
    then show ?thesis by (simp add: mouseButtonReleased_def Let_def)
  qed
  have cleared: "\<not> isChargingShot (mouseButtonReleased mx my g)
      \<and> shotChargeProgress (mouseButtonReleased mx my g) = Fin 0"
    by (simp add: mouseButtonReleased_def Let_def)
  from launch keep cleared show ?thesis by blast
qed

theorem mouseButtonReleased_launch_witness:
  "wellformed chargedGame
   \<and> ballPositions chargedGame ! 0 = Vector2 (Fin (- 4.5)) (Fin 0)
   \<and> shotChargeProgress chargedGame = Fin 1
   \<and> (1::real) / 10 ^ 18 \<le> sqrt (3 * 3 + 4 * 4)
   \<and> \<bar>3::real\<bar> \<le> 10 ^ 18 \<and> \<bar>4::real\<bar> \<le> 10 ^ 18
   \<and> length_v (ballVelocities chargedGame ! 0) < Fin 0.01
   \<and> ballVelocities (mouseButtonReleased (Fin (- 1.5)) (Fin 4) chargedGame) ! 0
       = Vector2 (Fin 3.6) (Fin 4.8)
   \<and> \<not> isChargingShot (mouseButtonReleased (Fin (- 1.5)) (Fin 4) chargedGame)
   \<and> shotChargeProgress (mouseButtonReleased (Fin (- 1.5)) (Fin 4) chargedGame) = Fin 0
   \<and> wellformed rollingGame
   \<and> Fin 0.01 \<le> length_v (ballVelocities rollingGame ! 0)
   \<and> ballVelocities (mouseButtonReleased (Fin (- 1.5)) (Fin 4) rollingGame) ! 0
       = ballVelocities rollingGame ! 0"
proof -
  have pos: "ballPositions chargedGame ! 0 = Vector2 (Fin (- 4.5)) (Fin 0)"
    by (simp add: chargedGame_simps ballsPositions_def width_def)
  have slow: "length_v (ballVelocities chargedGame ! 0) < Fin 0.01"
    by (simp add: chargedGame_simps numeral_eq_Suc length_v_zero)
  have root: "sqrt 25 = 5"
    by (rule real_sqrt_unique) (simp_all add: power2_eq_square)
  have wf: "wellformed rollingGame"
    by (simp add: wellformed_def rollingGame_def startGame_simps ballsPositions_def)
  have fast: "Fin 0.01 \<le> length_v (ballVelocities rollingGame ! 0)"
    by (simp add: rollingGame_def numeral_eq_Suc length_v_x_axis)
  show ?thesis
    using mouseButtonReleased_launch [OF wellformed_chargedGame,
        where px = "- 4.5" and py = 0 and c = 1 and a = "- 1.5" and b = 4
          and mx = "Fin (- 1.5)" and my = "Fin 4"]
      mouseButtonReleased_launch [OF wf, where mx = "Fin (- 1.5)" and my = "Fin 4"]
      wellformed_chargedGame pos slow wf fast
    by (simp add: chargedGame_simps root)
qed

text \<open>
  Claim C5 has a release whose direction is shorter than the threshold ignored, the
  velocity of the cue ball unchanged and finite. \<^verbatim>\<open>mouseButtonReleased\<close> has no test on the
  direction. On the rack at rest with a full charge, a release on the cue ball itself
  divides zero by zero and stores a velocity that is not a number; a release 0.005 away
  from it launches the cue ball at speed 6. In both cases the charging state is
  cleared.
\<close>

theorem release_without_guard:
  "length_v (ballVelocities chargedGame ! 0) < Fin 0.01
   \<and> ballVelocities chargedGame ! 0 = Vector2 (Fin 0) (Fin 0)
   \<and> length_v (Vector2 (Fin (- 4.5)) (Fin 0) - ballPositions chargedGame ! 0) < accurance
   \<and> ballVelocities (mouseButtonReleased (Fin (- 4.5)) (Fin 0) chargedGame) ! 0 = Vector2 NaN NaN
   \<and> \<not> isChargingShot (mouseButtonReleased (Fin (- 4.5)) (Fin 0) chargedGame)
   \<and> shotChargeProgress (mouseButtonReleased (Fin (- 4.5)) (Fin 0) chargedGame) = Fin 0
   \<and> length_v (Vector2 (Fin (- 4.495)) (Fin 0) - ballPositions chargedGame ! 0) < accurance
   \<and> ballVelocities (mouseButtonReleased (Fin (- 4.495)) (Fin 0) chargedGame) ! 0
       = Vector2 (Fin 6) (Fin 0)
   \<and> \<not> isChargingShot (mouseButtonReleased (Fin (- 4.495)) (Fin 0) chargedGame)
   \<and> shotChargeProgress (mouseButtonReleased (Fin (- 4.495)) (Fin 0) chargedGame) = Fin 0"
proof -
  have zero: "ballVelocities (mouseButtonReleased (Fin (- 4.5)) (Fin 0) chargedGame) ! 0
      = Vector2 NaN NaN"
    by (simp add: chargedGame_simps ballsPositions_def width_def numeral_eq_Suc length_v_zero
        mouseButtonReleased_def normolize_def scale_def)
  have short: "ballVelocities (mouseButtonReleased (Fin (- 4.495)) (Fin 0) chargedGame) ! 0
      = Vector2 (Fin 6) (Fin 0)"
    by (simp add: chargedGame_simps ballsPositions_def width_def numeral_eq_Suc length_v_zero
        mouseButtonReleased_def normolize_x_axis scale_def impulse_def)
  show ?thesis
    using zero short
    by (simp add: chargedGame_simps ballsPositions_def width_def minus_Vector2_def
        length_v_x_axis length_v_zero accurance_def numeral_eq_Suc mouseButtonReleased_def)
qed

section \<open>The charge of the shot\<close>

lemma isBorderCollesion_frame:
  "isChargingShot (snd (isBorderCollesion bld p i g)) = isChargingShot g"
  "shotChargeProgress (snd (isBorderCollesion bld p i g)) = shotChargeProgress g"
  "ballPositions (snd (isBorderCollesion bld p i g)) = ballPositions g"
  by (simp_all add: isBorderCollesion_def Let_def)

lemma recalculateVelocities_frame:
  "isChargingShot (recalculateVelocities bld i j g) = isChargingShot g"
  "shotChargeProgress (recalculateVelocities bld i j g) = shotChargeProgress g"
  "ballPositions (recalculateVelocities bld i j g) = ballPositions g"
  by (simp_all add: recalculateVelocities_def Let_def)

lemma physicStep_charge:
  "isChargingShot (loopGame (physicStep bld dt i g u)) = isChargingShot g
   \<and> shotChargeProgress (loopGame (physicStep bld dt i g u)) = shotChargeProgress g"
  by (simp add: physicStep_def Let_def case_prod_beta init_def deinit_def
      isBorderCollesion_frame recalculateVelocities_frame split: bool.splits)

lemma physicFor_charge:
  "isChargingShot (loopGame (physicFor bld dt is g u)) = isChargingShot g
   \<and> shotChargeProgress (loopGame (physicFor bld dt is g u)) = shotChargeProgress g"
proof (induction "is" arbitrary: g u)
  case Nil
  show ?case by simp
next
  case (Cons i rest)
  show ?case
  proof (cases "physicStep bld dt i g u")
    case (Return g')
    with physicStep_charge [of bld dt i g u] show ?thesis by simp
  next
    case (Next g' u')
    with physicStep_charge [of bld dt i g u] Cons.IH [of g' u'] show ?thesis by simp
  qed
qed

lemma physicLoop_charge:
  "isChargingShot (physicLoop bld dt g) = isChargingShot g
   \<and> shotChargeProgress (physicLoop bld dt g) = shotChargeProgress g"
proof (cases "physicFor bld dt [0..<length (ballVelocities g)] g {}")
  case (Return g')
  with physicFor_charge [of bld dt "[0..<length (ballVelocities g)]" g "{}"]
  show ?thesis by (simp add: physicLoop_def)
next
  case (Next g' u')
  with physicFor_charge [of bld dt "[0..<length (ballVelocities g)]" g "{}"]
  show ?thesis by (simp add: physicLoop_def reduceVelocities_def)
qed

lemma update_progress:
  "shotChargeProgress (update bld dt g) =
     (if isChargingShot g then std_min (shotChargeProgress g + dt / chargeTime) (Fin 1)
      else shotChargeProgress g)"
  by (simp add: update_def Let_def physicLoop_charge)

lemma charge_step_bounds:
  assumes "Fin 0 \<le> dt" and "Fin 0 \<le> p" and "p \<le> Fin 1"
  shows "Fin 0 \<le> std_min (p + dt / chargeTime) (Fin 1)
         \<and> std_min (p + dt / chargeTime) (Fin 1) \<le> Fin 1
         \<and> p \<le> std_min (p + dt / chargeTime) (Fin 1)"
  using assms by (cases dt; cases p) (simp_all add: std_min_def chargeTime_def)

lemma handle_bounds:
  assumes "nonnegative_dt e" and "Fin 0 \<le> shotChargeProgress g" and "shotChargeProgress g \<le> Fin 1"
  shows "Fin 0 \<le> shotChargeProgress (handle bld e g) \<and> shotChargeProgress (handle bld e g) \<le> Fin 1"
proof (cases e)
  case (Update dt)
  with assms charge_step_bounds [of dt "shotChargeProgress g"] show ?thesis
    by (simp add: update_progress)
next
  case (MouseButtonPressed mx my)
  with assms show ?thesis by (simp add: mouseButtonPressed_def)
next
  case (MouseButtonReleased mx my)
  then show ?thesis by (simp add: mouseButtonReleased_def Let_def)
qed

lemma run_bounds:
  "list_all nonnegative_dt es \<Longrightarrow> Fin 0 \<le> shotChargeProgress g \<Longrightarrow> shotChargeProgress g \<le> Fin 1
   \<Longrightarrow> Fin 0 \<le> shotChargeProgress (run bld es g) \<and> shotChargeProgress (run bld es g) \<le> Fin 1"
proof (induction es arbitrary: g)
  case Nil
  then show ?case by simp
next
  case (Cons e es)
  from Cons.prems have "nonnegative_dt e" and rest: "list_all nonnegative_dt es" by simp_all
  with Cons.prems handle_bounds [of e g]
  have "Fin 0 \<le> shotChargeProgress (handle bld e g) \<and> shotChargeProgress (handle bld e g) \<le> Fin 1"
    by simp
  with Cons.IH [OF rest, of "handle bld e g"] show ?case by simp
qed

text \<open>
  Claim C7: after any run of calls from the start of the game in which every \<^verbatim>\<open>update\<close>
  has \<open>dt \<ge> 0\<close>, the progress lies in [0, 1]. An \<^verbatim>\<open>update\<close> changes the progress only
  when the charging flag is set, to the minimum of progress + dt / chargeTime and 1,
  which is not below the old progress; with the flag clear it leaves the progress as
  it is. This holds in every build.
\<close>

theorem shotChargeProgress_clamped:
  "(list_all nonnegative_dt es \<longrightarrow>
      Fin 0 \<le> shotChargeProgress (run bld es startGame)
      \<and> shotChargeProgress (run bld es startGame) \<le> Fin 1)
   \<and> shotChargeProgress (update bld dt g) =
       (if isChargingShot g then std_min (shotChargeProgress g + dt / chargeTime) (Fin 1)
        else shotChargeProgress g)
   \<and> (Fin 0 \<le> dt \<and> Fin 0 \<le> shotChargeProgress g \<and> shotChargeProgress g \<le> Fin 1 \<longrightarrow>
        shotChargeProgress g \<le> shotChargeProgress (update bld dt g))"
proof -
  have "Fin 0 \<le> shotChargeProgress startGame \<and> shotChargeProgress startGame \<le> Fin 1"
    by (simp add: startGame_simps)
  then have "list_all nonnegative_dt es \<longrightarrow>
      Fin 0 \<le> shotChargeProgress (run bld es startGame)
      \<and> shotChargeProgress (run bld es startGame) \<le> Fin 1"
    using run_bounds [of es startGame] by simp
  moreover have "Fin 0 \<le> dt \<and> Fin 0 \<le> shotChargeProgress g \<and> shotChargeProgress g \<le> Fin 1 \<longrightarrow>
        shotChargeProgress g \<le> shotChargeProgress (update bld dt g)"
    using charge_step_bounds [of dt "shotChargeProgress g"]
    by (cases "shotChargeProgress g") (simp_all add: update_progress)
  ultimately show ?thesis by (simp add: update_progress)
qed

theorem shotChargeProgress_clamped_witness:
  "list_all nonnegative_dt holdAndRelease
   \<and> Fin 0 \<le> shotChargeProgress (run valueBuild holdAndRelease startGame)
   \<and> shotChargeProgress (run valueBuild holdAndRelease startGame) \<le> Fin 1
   \<and> shotChargeProgress (update valueBuild (Fin 0.7) chargedGame) = Fin 1
   \<and> shotChargeProgress chargedGame \<le> shotChargeProgress (update valueBuild (Fin 0.7) chargedGame)"
proof -
  have ok: "list_all nonnegative_dt holdAndRelease"
    by (simp add: holdAndRelease_def)
  show ?thesis
    using shotChargeProgress_clamped [where es = holdAndRelease and bld = valueBuild and dt = "Fin 0.7" and g = chargedGame] ok
    by (simp add: chargedGame_def std_min_def chargeTime_def)
qed

section \<open>The pair collision\<close>

lemma finite_v_iff: "finite_v v \<longleftrightarrow> (\<exists>a b. v = Vector2 (Fin a) (Fin b))"
proof (cases v)
  case (Vector2 p q)
  then show ?thesis by (cases p; cases q) (simp_all add: finite_v_def)
qed

lemma unit_direction:
  fixes dx dy :: real
  assumes "dx \<noteq> 0 \<or> dy \<noteq> 0"
  defines "l \<equiv> sqrt (dx * dx + dy * dy)"
  shows "l \<noteq> 0" and "(dx / l) * (dx / l) + (dy / l) * (dy / l) = 1"
proof -
  have nz: "dx * dx + dy * dy \<noteq> 0" using assms(1) by (simp add: sum_squares_eq_zero_iff)
  then show "l \<noteq> 0" by (simp add: l_def)
  have sq: "l * l = dx * dx + dy * dy" by (simp add: l_def)
  have "(dx / l) * (dx / l) + (dy / l) * (dy / l) = (dx * dx + dy * dy) / (l * l)"
    by (simp add: add_divide_distrib)
  also have "\<dots> = 1" using nz by (simp add: sq)
  finally show "(dx / l) * (dx / l) + (dy / l) * (dy / l) = 1" .
qed

lemma normolize_unit:
  assumes "finite_v p" and "finite_v q" and "p \<noteq> q"
  shows "\<exists>nx ny. normolize (q - p) = Vector2 (Fin nx) (Fin ny) \<and> nx * nx + ny * ny = 1"
proof -
  from assms(1) obtain a b where p: "p = Vector2 (Fin a) (Fin b)" by (auto simp: finite_v_iff)
  from assms(2) obtain c d where q: "q = Vector2 (Fin c) (Fin d)" by (auto simp: finite_v_iff)
  from assms(3) p q have ne: "c - a \<noteq> 0 \<or> d - b \<noteq> 0" by auto
  let ?l = "sqrt ((c - a) * (c - a) + (d - b) * (d - b))"
  have "normolize (q - p) = Vector2 (Fin ((c - a) / ?l)) (Fin ((d - b) / ?l))"
    using unit_direction(1) [OF ne] by (simp add: p q minus_Vector2_def normolize_def length_v_Fin)
  with unit_direction(2) [OF ne] show ?thesis by blast
qed

lemma exchange_energy:
  fixes nx ny :: real
  assumes "nx * nx + ny * ny = 1"
  shows "(a - nx * (a * nx + b * ny) + nx * (c * nx + d * ny)) * (a - nx * (a * nx + b * ny) + nx * (c * nx + d * ny))
       + (b - ny * (a * nx + b * ny) + ny * (c * nx + d * ny)) * (b - ny * (a * nx + b * ny) + ny * (c * nx + d * ny))
       + ((c - nx * (c * nx + d * ny) + nx * (a * nx + b * ny)) * (c - nx * (c * nx + d * ny) + nx * (a * nx + b * ny))
       + (d - ny * (c * nx + d * ny) + ny * (a * nx + b * ny)) * (d - ny * (c * nx + d * ny) + ny * (a * nx + b * ny)))
       = a * a + b * b + (c * c + d * d)"
proof -
  define s where "s = a * nx + b * ny"
  define r where "r = c * nx + d * ny"
  have "(a - nx * s + nx * r) * (a - nx * s + nx * r) + (b - ny * s + ny * r) * (b - ny * s + ny * r)
       + ((c - nx * r + nx * s) * (c - nx * r + nx * s) + (d - ny * r + ny * s) * (d - ny * r + ny * s))
       = a * a + b * b + (c * c + d * d) + 2 * (r - s) * (a * nx + b * ny) - 2 * (r - s) * (c * nx + d * ny)
         + 2 * (r - s) * (r - s) * (nx * nx + ny * ny)"
    by (simp add: algebra_simps)
  also have "\<dots> = a * a + b * b + (c * c + d * d)"
    by (simp add: assms s_def r_def algebra_simps)
  finally show ?thesis by (simp add: s_def r_def)
qed

lemma exchange_tangent:
  fixes nx ny :: real
  assumes "nx * nx + ny * ny = 1"
  shows "a - nx * (a * nx + b * ny) = - ny * (a * (- ny) + b * nx)"
    and "b - ny * (a * nx + b * ny) = nx * (a * (- ny) + b * nx)"
proof -
  have "a - nx * (a * nx + b * ny) = - ny * (a * (- ny) + b * nx) + a * (1 - (nx * nx + ny * ny))"
    by (simp add: algebra_simps)
  then show "a - nx * (a * nx + b * ny) = - ny * (a * (- ny) + b * nx)" by (simp add: assms)
  have "b - ny * (a * nx + b * ny) = nx * (a * (- ny) + b * nx) + b * (1 - (nx * nx + ny * ny))"
    by (simp add: algebra_simps)
  then show "b - ny * (a * nx + b * ny) = nx * (a * (- ny) + b * nx)" by (simp add: assms)
qed

lemma tangent_part:
  assumes "nx * nx + ny * ny = 1"
  shows "Vector2 (Fin a) (Fin b)
           - scale (Vector2 (Fin nx) (Fin ny)) (dot (Vector2 (Fin a) (Fin b)) (Vector2 (Fin nx) (Fin ny)))
         = scale (Vector2 (- Fin ny) (Fin nx))
             (dot (Vector2 (Fin a) (Fin b)) (Vector2 (- Fin ny) (Fin nx)))"
  using exchange_tangent [OF assms, where a = a and b = b]
  by (simp add: dot_def scale_def minus_Vector2_def)

lemma borderPairGame_simps:
  "ballPositions borderPairGame = ballsPositions[1 := Vector2 (Fin 7.1) (Fin 0), 2 := Vector2 (Fin 6.6) (Fin 0)]"
  "ballVelocities borderPairGame = (replicate 7 (Vector2 (Fin 0) (Fin 0)))
         [1 := Vector2 (Fin 1) (Fin 0), 2 := Vector2 (Fin 1) (Fin 0)]"
  by (simp_all add: borderPairGame_def)

lemma borderPairGame_balls:
  "ballPositions borderPairGame ! 1 = Vector2 (Fin 7.1) (Fin 0)"
  "ballPositions borderPairGame ! 2 = Vector2 (Fin 6.6) (Fin 0)"
  "ballVelocities borderPairGame ! 1 = Vector2 (Fin 1) (Fin 0)"
  "ballVelocities borderPairGame ! 2 = Vector2 (Fin 1) (Fin 0)"
  "ballPositions borderPairGame ! Suc 0 = Vector2 (Fin 7.1) (Fin 0)"
  "ballVelocities borderPairGame ! Suc 0 = Vector2 (Fin 1) (Fin 0)"
  by (simp_all add: borderPairGame_simps ballsPositions_def numeral_eq_Suc)

lemma wellformed_borderPairGame: "wellformed borderPairGame"
  by (simp add: wellformed_def borderPairGame_simps ballsPositions_def)

lemma headOnGame_balls:
  "ballPositions headOnGame ! 0 = Vector2 (Fin 2.4) (Fin 0)"
  "ballPositions headOnGame ! 1 = Vector2 (Fin 3) (Fin 0)"
  "ballVelocities headOnGame ! 0 = Vector2 (Fin 1) (Fin 0)"
  "ballVelocities headOnGame ! 1 = Vector2 (Fin 0) (Fin 0)"
  "ballPositions headOnGame ! Suc 0 = Vector2 (Fin 3) (Fin 0)"
  "ballVelocities headOnGame ! Suc 0 = Vector2 (Fin 0) (Fin 0)"
  "length (ballVelocities headOnGame) = 7"
  by (simp_all add: headOnGame_def ballsPositions_def width_def numeral_eq_Suc)

lemma headOnGame_normal:
  "normolize (ballPositions headOnGame ! 1 - ballPositions headOnGame ! 0) = Vector2 (Fin 1) (Fin 0)"
  by (simp add: headOnGame_balls minus_Vector2_def normolize_x_axis)

lemma valueBuild_simps: "absFn valueBuild = abs" "dirRead valueBuild n k = n"
  by (simp_all add: valueBuild_def)

text \<open>
  When every read of \<^verbatim>\<open>dir\<close> finds the normalised vector, the exchange keeps the sum of
  the squared speeds of two balls at distinct positions (in exact arithmetic), and it is
  the exchange of the formulation with the true perpendicular.
\<close>

lemma recalculateVelocities_value_energy:
  assumes "wellformed g" and "i < 7" and "j < 7"
    and "finite_v (ballPositions g ! i)" and "finite_v (ballPositions g ! j)"
    and "finite_v (ballVelocities g ! i)" and "finite_v (ballVelocities g ! j)"
    and "ballPositions g ! i \<noteq> ballPositions g ! j"
  shows "norm_v (ballVelocities (recalculateVelocities valueBuild i j g) ! i)
           + norm_v (ballVelocities (recalculateVelocities valueBuild i j g) ! j)
         = norm_v (ballVelocities g ! i) + norm_v (ballVelocities g ! j)"
proof -
  from assms(8) have ij: "i \<noteq> j" by auto
  from assms(1,2,3) have len: "i < length (ballVelocities g)" "j < length (ballVelocities g)"
    by (simp_all add: wellformed_def)
  from normolize_unit [OF assms(4,5,8)] obtain nx ny
    where n: "normolize (ballPositions g ! j - ballPositions g ! i) = Vector2 (Fin nx) (Fin ny)"
      and unit: "nx * nx + ny * ny = 1" by blast
  from assms(6) obtain a b where vi: "ballVelocities g ! i = Vector2 (Fin a) (Fin b)"
    by (auto simp: finite_v_iff)
  from assms(7) obtain c d where vj: "ballVelocities g ! j = Vector2 (Fin c) (Fin d)"
    by (auto simp: finite_v_iff)
  show ?thesis
    unfolding recalculateVelocities_def Let_def valueBuild_simps n vi vj
    using ij len exchange_energy [OF unit, of a b c d]
    by (simp add: dot_def scale_def minus_Vector2_def plus_Vector2_def norm_v_def)
qed

lemma recalculateVelocities_value_perpendicular:
  assumes "finite_v (ballPositions g ! i)" and "finite_v (ballPositions g ! j)"
    and "finite_v (ballVelocities g ! i)" and "finite_v (ballVelocities g ! j)"
    and "ballPositions g ! i \<noteq> ballPositions g ! j"
  shows "recalculateVelocities valueBuild i j g = recalculateVelocities_perp i j g"
proof -
  from normolize_unit [OF assms(1,2,5)] obtain nx ny
    where n: "normolize (ballPositions g ! j - ballPositions g ! i) = Vector2 (Fin nx) (Fin ny)"
      and unit: "nx * nx + ny * ny = 1" by blast
  from assms(3) obtain a b where vi: "ballVelocities g ! i = Vector2 (Fin a) (Fin b)"
    by (auto simp: finite_v_iff)
  from assms(4) obtain c d where vj: "ballVelocities g ! j = Vector2 (Fin c) (Fin d)"
    by (auto simp: finite_v_iff)
  show ?thesis
    unfolding recalculateVelocities_def recalculateVelocities_perp_def Let_def valueBuild_simps
      n vi vj
    by (simp only: tangent_part [OF unit] Vector2.sel)
qed

text \<open>
  Claim C2 has \<^verbatim>\<open>recalculateVelocities\<close> preserve the sum of the squared speeds of a
  colliding pair. The function reads \<^verbatim>\<open>dir\<close> after the temporary it refers to has been
  destroyed, so what it computes depends on what the reads find. For the cue ball
  rolling at speed 1 into ball 1 at rest, the sum is 1 before the call; it is 1 after it
  in the build whose reads find the normalised vector, and 0 in the build whose last read
  finds zeros (the cue ball has given its velocity away and ball 1 has not received it).
\<close>

theorem recalculateVelocities_lost_read_energy:
  "norm_v (ballVelocities headOnGame ! 0) + norm_v (ballVelocities headOnGame ! 1) = Fin 1
   \<and> norm_v (ballVelocities (recalculateVelocities valueBuild 0 1 headOnGame) ! 0)
       + norm_v (ballVelocities (recalculateVelocities valueBuild 0 1 headOnGame) ! 1) = Fin 1
   \<and> norm_v (ballVelocities (recalculateVelocities lostReadBuild 0 1 headOnGame) ! 0)
       + norm_v (ballVelocities (recalculateVelocities lostReadBuild 0 1 headOnGame) ! 1) = Fin 0"
  unfolding recalculateVelocities_def Let_def headOnGame_normal
  by (simp add: headOnGame_balls valueBuild_def lostReadBuild_def dot_def scale_def
      minus_Vector2_def plus_Vector2_def norm_v_def)

text \<open>
  Claim C9 has the velocities written by \<^verbatim>\<open>recalculateVelocities\<close> equal to
  \<open>(v\<^sub>i - n (v\<^sub>i \<cdot> n)) + n (v\<^sub>j \<cdot> n)\<close> and \<open>(v\<^sub>j - n (v\<^sub>j \<cdot> n)) + n (v\<^sub>i \<cdot> n)\<close>, with \<open>n\<close> the
  normalised direction. The vector \<^verbatim>\<open>tan\<close> is indeed never used, but \<open>n\<close> is read through
  the dangling reference \<^verbatim>\<open>dir\<close>. For the cue ball rolling at speed 1 into ball 1 at
  rest, \<open>n\<close> is (1, 0) and the formula gives ball 1 the velocity (1, 0); the build whose
  reads find the normalised vector stores that, the build whose last read finds zeros
  stores (0, 0).
\<close>

theorem recalculateVelocities_lost_read_formula:
  "normolize (ballPositions headOnGame ! 1 - ballPositions headOnGame ! 0) = Vector2 (Fin 1) (Fin 0)
   \<and> (ballVelocities headOnGame ! 1
        - scale (Vector2 (Fin 1) (Fin 0)) (dot (ballVelocities headOnGame ! 1) (Vector2 (Fin 1) (Fin 0))))
      + scale (Vector2 (Fin 1) (Fin 0)) (dot (ballVelocities headOnGame ! 0) (Vector2 (Fin 1) (Fin 0)))
      = Vector2 (Fin 1) (Fin 0)
   \<and> ballVelocities (recalculateVelocities valueBuild 0 1 headOnGame) ! 1 = Vector2 (Fin 1) (Fin 0)
   \<and> ballVelocities (recalculateVelocities lostReadBuild 0 1 headOnGame) ! 1 = Vector2 (Fin 0) (Fin 0)"
  unfolding recalculateVelocities_def Let_def headOnGame_normal
  by (simp add: headOnGame_balls valueBuild_def lostReadBuild_def dot_def scale_def
      minus_Vector2_def plus_Vector2_def)

section \<open>The border test\<close>

text \<open>
  The two functions that \<^verbatim>\<open>abs\<close> can name give different border tests: at \<open>y = 3.8\<close> the
  float overload reports the upper border, \<^verbatim>\<open>int abs(int)\<close> does not.
\<close>

lemma abs_overloads_differ:
  "\<bar>\<bar>Fin 3.8\<bar> - height / Fin 2\<bar> \<le> radius + accurance
   \<and> \<not> abs_int (abs_int (Fin 3.8) - height / Fin 2) \<le> radius + accurance"
  by (simp add: height_def radius_def accurance_def)

lemma isBorderCollesion_eq:
  assumes "i < length (ballVelocities g)"
  shows "isBorderCollesion bld p i g =
     (absFn bld (absFn bld (x p) - width / Fin 2) \<le> radius + accurance
        \<or> absFn bld (absFn bld (y p) - height / Fin 2) \<le> radius + accurance,
      g\<lparr>ballVelocities := (ballVelocities g)
         [i := Vector2
            (if absFn bld (absFn bld (x p) - width / Fin 2) \<le> radius + accurance
             then - x (ballVelocities g ! i) else x (ballVelocities g ! i))
            (if absFn bld (absFn bld (y p) - height / Fin 2) \<le> radius + accurance
             then - y (ballVelocities g ! i) else y (ballVelocities g ! i))]\<rparr>)"
  using assms by (simp add: isBorderCollesion_def Let_def)

lemma borderPair_step0:
  "physicStep bld (Fin 0.1) 0 borderPairGame {} = Next borderPairGame {}"
  by (rule physicStep_slow)
    (simp add: borderPairGame_simps length_v_zero accurance_def)

lemma borderPair_notInPocket: "\<not> inPocket (Vector2 (Fin 7.2) (Fin 0))"
  by (simp add: inPocket_def pocketsPositions_def geometry)

lemma borderPair_notFreeze: "\<not> isFreeze borderPairGame"
  by (simp add: isFreeze_def borderPairGame_simps numeral_eq_Suc length_v_zero accurance_def)

text \<open>The tick in the build with the float overload and intact reads.\<close>

lemma borderPair_step1:
  "physicStep valueBuild (Fin 0.1) 1 borderPairGame {} =
     Next (borderPairGame\<lparr>ballVelocities := (replicate 7 (Vector2 (Fin 0) (Fin 0)))
         [1 := Vector2 (Fin (- 1)) (Fin 0), 2 := Vector2 (Fin 1) (Fin 0)]\<rparr>) {}"
  by (simp add: physicStep_def Let_def borderPairGame_simps ballsPositions_def numeral_eq_Suc
      inPocket_def pocketsPositions_def isBorderCollesion_def geometry valueBuild_def)

lemma borderPair_step2:
  "physicStep valueBuild (Fin 0.1) 2
     (borderPairGame\<lparr>ballVelocities := (replicate 7 (Vector2 (Fin 0) (Fin 0)))
         [1 := Vector2 (Fin (- 1)) (Fin 0), 2 := Vector2 (Fin 1) (Fin 0)]\<rparr>) {} =
   Next (borderPairGame
     \<lparr>ballPositions := ballsPositions[1 := Vector2 (Fin 7.3) (Fin 0), 2 := Vector2 (Fin 6.3) (Fin 0)],
      ballVelocities := (replicate 7 (Vector2 (Fin 0) (Fin 0)))
         [1 := Vector2 (Fin 1) (Fin 0), 2 := Vector2 (Fin (- 1)) (Fin 0)]\<rparr>) {2, 1}"
  by (simp add: physicStep_def Let_def borderPairGame_simps ballsPositions_def numeral_eq_Suc
      inPocket_def pocketsPositions_def isBorderCollesion_def findClosestBall_def
      findClosestStep_def upt_rec recalculateVelocities_def calculateTimeConflict_def
      normolize_x_axis dot_def scale_def geometry valueBuild_def)

lemma borderPair_rest:
  "physicFor bld (Fin 0.1) [3, 4, 5, 6] (borderPairGame
     \<lparr>ballPositions := ballsPositions[1 := Vector2 (Fin 7.3) (Fin 0), 2 := Vector2 (Fin 6.3) (Fin 0)],
      ballVelocities := (replicate 7 (Vector2 (Fin 0) (Fin 0)))
         [1 := Vector2 (Fin 1) (Fin 0), 2 := Vector2 (Fin (- 1)) (Fin 0)]\<rparr>) {2, 1} =
   Next (borderPairGame
     \<lparr>ballPositions := ballsPositions[1 := Vector2 (Fin 7.3) (Fin 0), 2 := Vector2 (Fin 6.3) (Fin 0)],
      ballVelocities := (replicate 7 (Vector2 (Fin 0) (Fin 0)))
         [1 := Vector2 (Fin 1) (Fin 0), 2 := Vector2 (Fin (- 1)) (Fin 0)]\<rparr>) {2, 1}"
  by (rule physicFor_slow) (simp add: numeral_eq_Suc length_v_zero accurance_def)

lemma borderPair_physicLoop:
  "ballPositions (physicLoop valueBuild (Fin 0.1) borderPairGame) =
     ballsPositions[1 := Vector2 (Fin 7.3) (Fin 0), 2 := Vector2 (Fin 6.3) (Fin 0)]"
proof -
  have "length (ballVelocities borderPairGame) = 7"
    using wellformed_borderPairGame by (simp add: wellformed_def)
  then show ?thesis
    using borderPair_notFreeze borderPair_step0 borderPair_step1 borderPair_step2 borderPair_rest
    by (simp add: physicLoop_def upt_7 reduceVelocities_def)
qed

text \<open>The tick in the build with \<^verbatim>\<open>int abs(int)\<close> and reads that find zeros.\<close>

lemma borderPair_noExchange_step1:
  "physicStep noExchangeBuild (Fin 0.1) 1 borderPairGame {} =
     Next (borderPairGame\<lparr>ballVelocities := (replicate 7 (Vector2 (Fin 0) (Fin 0)))
         [1 := Vector2 (Fin (- 1)) (Fin 0), 2 := Vector2 (Fin 1) (Fin 0)]\<rparr>) {}"
  by (simp add: physicStep_def Let_def borderPairGame_simps ballsPositions_def numeral_eq_Suc
      inPocket_def pocketsPositions_def isBorderCollesion_def geometry noExchangeBuild_def)

lemma borderPair_noExchange_step2:
  "physicStep noExchangeBuild (Fin 0.1) 2
     (borderPairGame\<lparr>ballVelocities := (replicate 7 (Vector2 (Fin 0) (Fin 0)))
         [1 := Vector2 (Fin (- 1)) (Fin 0), 2 := Vector2 (Fin 1) (Fin 0)]\<rparr>) {} =
   Next (borderPairGame
     \<lparr>ballPositions := ballsPositions[1 := Vector2 (Fin 6.9) (Fin 0), 2 := Vector2 (Fin 6.7) (Fin 0)],
      ballVelocities := (replicate 7 (Vector2 (Fin 0) (Fin 0)))
         [1 := Vector2 (Fin (- 1)) (Fin 0), 2 := Vector2 (Fin 1) (Fin 0)]\<rparr>) {2, 1}"
  by (simp add: physicStep_def Let_def borderPairGame_simps ballsPositions_def numeral_eq_Suc
      inPocket_def pocketsPositions_def isBorderCollesion_def findClosestBall_def
      findClosestStep_def upt_rec recalculateVelocities_def calculateTimeConflict_def
      dot_def scale_def geometry noExchangeBuild_def)

lemma borderPair_noExchange_rest:
  "physicFor bld (Fin 0.1) [3, 4, 5, 6] (borderPairGame
     \<lparr>ballPositions := ballsPositions[1 := Vector2 (Fin 6.9) (Fin 0), 2 := Vector2 (Fin 6.7) (Fin 0)],
      ballVelocities := (replicate 7 (Vector2 (Fin 0) (Fin 0)))
         [1 := Vector2 (Fin (- 1)) (Fin 0), 2 := Vector2 (Fin 1) (Fin 0)]\<rparr>) {2, 1} =
   Next (borderPairGame
     \<lparr>ballPositions := ballsPositions[1 := Vector2 (Fin 6.9) (Fin 0), 2 := Vector2 (Fin 6.7) (Fin 0)],
      ballVelocities := (replicate 7 (Vector2 (Fin 0) (Fin 0)))
         [1 := Vector2 (Fin (- 1)) (Fin 0), 2 := Vector2 (Fin 1) (Fin 0)]\<rparr>) {2, 1}"
  by (rule physicFor_slow) (simp add: numeral_eq_Suc length_v_zero accurance_def)

lemma borderPair_noExchange_physicLoop:
  "ballPositions (physicLoop noExchangeBuild (Fin 0.1) borderPairGame) =
     ballsPositions[1 := Vector2 (Fin 6.9) (Fin 0), 2 := Vector2 (Fin 6.7) (Fin 0)]"
proof -
  have "length (ballVelocities borderPairGame) = 7"
    using wellformed_borderPairGame by (simp add: wellformed_def)
  then show ?thesis
    using borderPair_notFreeze borderPair_step0 borderPair_noExchange_step1
      borderPair_noExchange_step2 borderPair_noExchange_rest
    by (simp add: physicLoop_def upt_7 reduceVelocities_def)
qed

text \<open>
  Claim C8, as stated (after a border hit the position of the ball after the tick is its
  position before the tick), fails: in the tick of 0.1 from the example state, ball 1 is
  processed, is not pocketed and is in the band of the right border for either function
  that \<^verbatim>\<open>abs\<close> can name, so its round flips \<open>v.x\<close> and leaves its position at (7.1, 0);
  then ball 2, processed next, finds ball 1 within two radii of its end position and the
  pair collision moves ball 1: to (7.3, 0) when the reads of \<^verbatim>\<open>dir\<close> find the normalised
  vector, to (6.9, 0) when they find zeros.
\<close>

theorem border_bounce_tick_counterexample:
  "physicStep valueBuild (Fin 0.1) 1 borderPairGame {} =
     Next (borderPairGame\<lparr>ballVelocities := (replicate 7 (Vector2 (Fin 0) (Fin 0)))
         [1 := Vector2 (Fin (- 1)) (Fin 0), 2 := Vector2 (Fin 1) (Fin 0)]\<rparr>) {}
   \<and> \<not> isFreeze borderPairGame
   \<and> \<not> length_v (ballVelocities borderPairGame ! 1) \<le> accurance
   \<and> \<not> inPocket (Vector2 (Fin 7.2) (Fin 0))
   \<and> \<bar>\<bar>Fin 7.2\<bar> - width / Fin 2\<bar> \<le> radius + accurance
   \<and> abs_int (abs_int (Fin 7.2) - width / Fin 2) \<le> radius + accurance
   \<and> ballPositions borderPairGame ! 1 = Vector2 (Fin 7.1) (Fin 0)
   \<and> ballPositions (update valueBuild (Fin 0.1) borderPairGame) ! 1 = Vector2 (Fin 7.3) (Fin 0)
   \<and> ballPositions (update noExchangeBuild (Fin 0.1) borderPairGame) ! 1
       = Vector2 (Fin 6.9) (Fin 0)"
proof -
  have "ballPositions (update valueBuild (Fin 0.1) borderPairGame) ! 1 = Vector2 (Fin 7.3) (Fin 0)"
    by (simp add: update_def Let_def borderPair_physicLoop ballsPositions_def)
  moreover have "ballPositions (update noExchangeBuild (Fin 0.1) borderPairGame) ! 1
      = Vector2 (Fin 6.9) (Fin 0)"
    by (simp add: update_def Let_def borderPair_noExchange_physicLoop ballsPositions_def)
  ultimately show ?thesis
    using borderPair_step1 borderPair_notFreeze borderPair_notInPocket
    by (simp add: borderPairGame_balls length_v_x_axis geometry)
qed

text \<open>
  Claim C8, amended: the round of a ball that is processed (faster than the threshold,
  not in the skip set), not pocketed at its tentative end position \<open>p'\<close> and for which
  the border test of the code fires on at least one axis, negates \<open>v.x\<close> when the test
  on \<open>x\<close> holds and \<open>v.y\<close> when the test on \<open>y\<close> holds (both when both hold), and changes
  nothing else: all positions, the other velocities and the skip set are as before the
  round. The test on an axis is \<^verbatim>\<open>abs(abs(p') - half) <= r + \<epsilon>\<close> with the function that
  \<^verbatim>\<open>abs\<close> names in the build; with the float overload it is the band of the claim.
\<close>

theorem border_bounce_step:
  assumes "wellformed g" and "i < 7"
    and "\<not> length_v (ballVelocities g ! i) \<le> accurance" and "i \<notin> undoneBalls"
    and "p' = Vector2 (x (ballPositions g ! i) + x (ballVelocities g ! i) * dt)
                      (y (ballPositions g ! i) + y (ballVelocities g ! i) * dt)"
    and "\<not> inPocket p'"
    and "absFn bld (absFn bld (x p') - width / Fin 2) \<le> radius + accurance
         \<or> absFn bld (absFn bld (y p') - height / Fin 2) \<le> radius + accurance"
  shows "physicStep bld dt i g undoneBalls =
     Next (g\<lparr>ballVelocities := (ballVelocities g)
         [i := Vector2
            (if absFn bld (absFn bld (x p') - width / Fin 2) \<le> radius + accurance
             then - x (ballVelocities g ! i) else x (ballVelocities g ! i))
            (if absFn bld (absFn bld (y p') - height / Fin 2) \<le> radius + accurance
             then - y (ballVelocities g ! i) else y (ballVelocities g ! i))]\<rparr>) undoneBalls"
proof -
  from assms(1,2) have len: "i < length (ballVelocities g)" by (simp add: wellformed_def)
  show ?thesis
    unfolding physicStep_def Let_def assms(5) [symmetric]
    using assms(3,4,6,7) by (simp add: isBorderCollesion_eq [OF len])
qed

theorem border_bounce_step_witness:
  "wellformed borderPairGame \<and> (1::nat) < 7
   \<and> \<not> length_v (ballVelocities borderPairGame ! 1) \<le> accurance
   \<and> (1::nat) \<notin> {}
   \<and> \<not> inPocket (Vector2 (Fin 7.2) (Fin 0))
   \<and> absFn valueBuild (absFn valueBuild (Fin 7.2) - width / Fin 2) \<le> radius + accurance
   \<and> physicStep valueBuild (Fin 0.1) 1 borderPairGame {} =
       Next (borderPairGame\<lparr>ballVelocities := (ballVelocities borderPairGame)
         [1 := Vector2 (Fin (- 1)) (Fin 0)]\<rparr>) {}"
  using border_bounce_step [OF wellformed_borderPairGame,
      where i = 1 and undoneBalls = "{}" and p' = "Vector2 (Fin 7.2) (Fin 0)"
        and dt = "Fin 0.1" and bld = valueBuild]
    borderPair_notInPocket wellformed_borderPairGame
  by (simp add: geometry borderPairGame_balls valueBuild_simps)

section \<open>Pocket absorption\<close>

lemma float_less_trans: "(a::float) < b \<Longrightarrow> b < c \<Longrightarrow> a < c"
  by (cases a; cases b; cases c) simp_all

lemma sentinelGame_simps:
  "ballPositions sentinelGame = ballsPositions[1 := Vector2 infinity infinity, 2 := Vector2 (Fin 45) (Fin 46)]"
  "ballVelocities sentinelGame = (replicate 7 (Vector2 (Fin 0) (Fin 0)))[2 := Vector2 (Fin 1) (Fin 0)]"
  by (simp_all add: sentinelGame_def)

lemma sentinel_step0: "physicStep valueBuild (Fin 1) 0 sentinelGame {} = Next sentinelGame {}"
  by (rule physicStep_slow) (simp add: sentinelGame_simps length_v_zero accurance_def)

lemma sentinel_step1: "physicStep valueBuild (Fin 1) 1 sentinelGame {} = Next sentinelGame {}"
  by (rule physicStep_slow) (simp add: sentinelGame_simps length_v_zero accurance_def)

lemma sentinel_step2:
  "physicStep valueBuild (Fin 1) 2 sentinelGame {} =
   Next (sentinelGame
     \<lparr>ballPositions := ballsPositions[1 := Vector2 (Fin 46.6) (Fin 46), 2 := Vector2 (Fin 45.4) (Fin 46)],
      ballVelocities := (replicate 7 (Vector2 (Fin 0) (Fin 0)))[1 := Vector2 (Fin 1) (Fin 0)]\<rparr>) {2, 1}"
  by (simp add: physicStep_def Let_def sentinelGame_simps ballsPositions_def numeral_eq_Suc
      inPocket_def pocketsPositions_def isBorderCollesion_def findClosestBall_def
      findClosestStep_def upt_rec recalculateVelocities_def calculateTimeConflict_def
      normolize_x_axis dot_def scale_def geometry valueBuild_def)


lemma sentinel_rest:
  "physicFor valueBuild (Fin 1) [3, 4, 5, 6] (sentinelGame
     \<lparr>ballPositions := ballsPositions[1 := Vector2 (Fin 46.6) (Fin 46), 2 := Vector2 (Fin 45.4) (Fin 46)],
      ballVelocities := (replicate 7 (Vector2 (Fin 0) (Fin 0)))[1 := Vector2 (Fin 1) (Fin 0)]\<rparr>) {2, 1} =
   Next (sentinelGame
     \<lparr>ballPositions := ballsPositions[1 := Vector2 (Fin 46.6) (Fin 46), 2 := Vector2 (Fin 45.4) (Fin 46)],
      ballVelocities := (replicate 7 (Vector2 (Fin 0) (Fin 0)))[1 := Vector2 (Fin 1) (Fin 0)]\<rparr>) {2, 1}"
  by (rule physicFor_slow) (simp add: numeral_eq_Suc length_v_zero accurance_def)

lemma sentinel_physicLoop:
  "physicLoop valueBuild (Fin 1) sentinelGame = sentinelGame
     \<lparr>ballPositions := ballsPositions[1 := Vector2 (Fin 46.6) (Fin 46), 2 := Vector2 (Fin 45.4) (Fin 46)],
      ballVelocities := (replicate 7 (Vector2 (Fin 0) (Fin 0)))[1 := Vector2 (Fin 0.7057) (Fin 0)]\<rparr>"
proof -
  have "\<not> isFreeze sentinelGame"
    by (simp add: isFreeze_def sentinelGame_simps numeral_eq_Suc length_v_zero accurance_def)
  then show ?thesis
    using sentinel_step0 sentinel_step1 sentinel_step2 sentinel_rest
    by (simp add: physicLoop_def sentinelGame_simps(2) upt_7 reduceVelocities_def
        reduceVelocity_def numeral_eq_Suc length_v_zero length_v_x_axis accurance_def
        friction_def Let_def)
qed

text \<open>
  Claim C6, as stated (no pair collision of another ball ever modifies a pocketed ball),
  fails: ball 1 is pocketed, ball 2 is at (45, 46) with velocity (1, 0), and in the tick
  of one second the end position of ball 2 is the sentinel, so ball 2 collides with
  ball 1, which ends at (46.6, 46) with velocity (0.7057, 0) in the build whose reads of
  \<^verbatim>\<open>dir\<close> find the normalised vector.
\<close>

theorem pocketed_ball_hit_counterexample:
  "pocketedOut 1 sentinelGame
   \<and> ballPositions (update valueBuild (Fin 1) sentinelGame) ! 1 = Vector2 (Fin 46.6) (Fin 46)
   \<and> ballVelocities (update valueBuild (Fin 1) sentinelGame) ! 1 = Vector2 (Fin 0.7057) (Fin 0)"
  by (simp add: update_def Let_def sentinel_physicLoop pocketedOut_def sentinelGame_simps
      ballsPositions_def numeral_eq_Suc)

lemma findClosestStep_selected:
  assumes "selected e s ps acc" and "i < length ps"
  shows "selected e s ps (findClosestStep e s ps i acc)"
  using assms
  by (auto simp: selected_def findClosestStep_def Let_def intro: float_less_trans)

lemma fold_findClosestStep_selected:
  "selected e s ps acc \<Longrightarrow> \<forall>i\<in>set ks. i < length ps
   \<Longrightarrow> selected e s ps (fold (findClosestStep e s ps) ks acc)"
  by (induction ks arbitrary: acc) (simp_all add: findClosestStep_selected)

lemma findClosestBall_selected:
  assumes "findClosestBall e s g \<noteq> s"
  shows "findClosestBall e s g < length (ballPositions g)
         \<and> length_v (e - ballPositions g ! findClosestBall e s g) < Fin 2 * radius
         \<and> length_v (ballPositions g ! s - ballPositions g ! findClosestBall e s g) < infinity"
proof -
  have "selected e s (ballPositions g) (s, infinity)" by (simp add: selected_def)
  then have "selected e s (ballPositions g)
      (fold (findClosestStep e s (ballPositions g)) [0..<length (ballPositions g)] (s, infinity))"
    by (rule fold_findClosestStep_selected) simp
  with assms show ?thesis by (simp add: selected_def findClosestBall_def)
qed

lemma isBorderCollesion_miss:
  "\<not> fst (isBorderCollesion bld p i g) \<Longrightarrow> snd (isBorderCollesion bld p i g) = g"
  by (simp add: isBorderCollesion_def Let_def split: if_splits)

lemma isBorderCollesion_others:
  "length (ballVelocities (snd (isBorderCollesion bld p i g))) = length (ballVelocities g)"
  "m \<noteq> i \<Longrightarrow> ballVelocities (snd (isBorderCollesion bld p i g)) ! m = ballVelocities g ! m"
  by (simp_all add: isBorderCollesion_def Let_def)

text \<open>
  What a round that goes on leaves as it was: the sizes of the arrays, and every ball
  other than the subject and, in a pair collision, its partner.
\<close>

lemma physicStep_frame:
  assumes "physicStep bld dt i g u = Next g' u'"
  shows "length (ballPositions g') = length (ballPositions g)
    \<and> length (ballVelocities g') = length (ballVelocities g)
    \<and> u \<subseteq> u'
    \<and> (\<forall>m. m \<noteq> i \<longrightarrow>
          ballPositions g' ! m = ballPositions g ! m \<and> ballVelocities g' ! m = ballVelocities g ! m
          \<or> m \<in> u' \<and> i \<notin> u \<and> \<not> length_v (ballVelocities g ! i) \<le> accurance
             \<and> findClosestBall (ballEndPos dt g i) i g = m)"
proof (cases "length_v (ballVelocities g ! i) \<le> accurance \<or> i \<in> u")
  case True
  with assms show ?thesis by (simp add: physicStep_def)
next
  case moving: False
  show ?thesis
  proof (cases "inPocket (ballEndPos dt g i)")
    case True
    with moving assms have "g' = g\<lparr>ballPositions := (ballPositions g)[i := Vector2 infinity infinity],
                  ballVelocities := (ballVelocities g)[i := Vector2 (Fin 0) (Fin 0)]\<rparr>"
      by (simp add: physicStep_def Let_def ballEndPos_def split: if_splits)
    moreover from True moving assms have "u' = u"
      by (simp add: physicStep_def Let_def ballEndPos_def split: if_splits)
    ultimately show ?thesis by simp
  next
    case noPocket: False
    show ?thesis
    proof (cases "fst (isBorderCollesion bld (ballEndPos dt g i) i g)")
      case True
      with moving noPocket assms
      have "g' = snd (isBorderCollesion bld (ballEndPos dt g i) i g) \<and> u' = u"
        by (simp add: physicStep_def Let_def ballEndPos_def case_prod_beta)
      then show ?thesis by (simp add: isBorderCollesion_others isBorderCollesion_frame)
    next
      case False
      note miss = isBorderCollesion_miss [OF False]
      show ?thesis
      proof (cases "findClosestBall (ballEndPos dt g i) i g = i")
        case True
        with moving noPocket False miss assms
        have "g' = g\<lparr>ballPositions := (ballPositions g)[i := ballEndPos dt g i]\<rparr> \<and> u' = u"
          by (simp add: physicStep_def Let_def ballEndPos_def [symmetric] case_prod_beta)
        then show ?thesis by simp
      next
        case collide: False
        define j where "j = findClosestBall (ballEndPos dt g i) i g"
        from moving noPocket False miss collide assms
        have u': "u' = insert i (insert j u)"
          and "length (ballPositions g') = length (ballPositions g)"
          and "length (ballVelocities g') = length (ballVelocities g)"
          and "\<forall>m. m \<noteq> i \<and> m \<noteq> j \<longrightarrow>
            ballPositions g' ! m = ballPositions g ! m \<and> ballVelocities g' ! m = ballVelocities g ! m"
          by (auto simp: physicStep_def Let_def ballEndPos_def [symmetric] case_prod_beta
              recalculateVelocities_def j_def)
        with moving u' show ?thesis unfolding j_def [symmetric] by auto
      qed
    qed
  qed
qed


lemma physicStep_Return:
  assumes "physicStep bld dt i g u = Return g'"
  shows "i = 0 \<and> i \<notin> u \<and> \<not> length_v (ballVelocities g ! i) \<le> accurance
         \<and> inPocket (ballEndPos dt g i)"
  using assms
  by (simp add: physicStep_def Let_def ballEndPos_def [symmetric] case_prod_beta
      split: if_splits bool.splits)

lemma reachesSentinel_cong:
  "ballPositions g ! i = ballPositions g0 ! i \<Longrightarrow> ballVelocities g ! i = ballVelocities g0 ! i
   \<Longrightarrow> reachesSentinel dt g i = reachesSentinel dt g0 i"
  by (simp add: reachesSentinel_def ballEndPos_def)

lemma ballEndPos_cong:
  "ballPositions g ! i = ballPositions g0 ! i \<Longrightarrow> ballVelocities g ! i = ballVelocities g0 ! i
   \<Longrightarrow> ballEndPos dt g i = ballEndPos dt g0 i"
  by (simp add: ballEndPos_def)

lemma pocketedOut_slow: "pocketedOut k g \<Longrightarrow> length_v (ballVelocities g ! k) \<le> accurance"
  by (simp add: pocketedOut_def length_v_zero accurance_def)

text \<open>
  The invariant of the loop: the pocketed ball stays pocketed, and a ball still to be
  processed that is not in the skip set is as it was when the tick began.
\<close>

lemma physicFor_pocketedOut:
  assumes H: "\<forall>i<7. \<not> length_v (ballVelocities g0 ! i) \<le> accurance \<longrightarrow> \<not> reachesSentinel dt g0 i"
    and noReset: "length_v (ballVelocities g0 ! 0) \<le> accurance \<or> \<not> inPocket (ballEndPos dt g0 0)"
  shows "distinct rest \<Longrightarrow> \<forall>m\<in>set rest. m < 7 \<Longrightarrow> wellformed g \<Longrightarrow> pocketedOut k g
    \<Longrightarrow> \<forall>m\<in>set rest. m \<notin> u \<longrightarrow>
          ballPositions g ! m = ballPositions g0 ! m \<and> ballVelocities g ! m = ballVelocities g0 ! m
    \<Longrightarrow> \<exists>g' u'. physicFor bld dt rest g u = Next g' u' \<and> wellformed g' \<and> pocketedOut k g'"
proof (induction rest arbitrary: g u)
  case Nil
  then show ?case by simp
next
  case (Cons i rest)
  have same: "i \<notin> u \<Longrightarrow>
      ballPositions g ! i = ballPositions g0 ! i \<and> ballVelocities g ! i = ballVelocities g0 ! i"
    using Cons.prems(5) by simp
  have i7: "i < 7" using Cons.prems(2) by simp
  show ?case
  proof (cases "physicStep bld dt i g u")
    case (Return g')
    note ret = physicStep_Return [OF Return]
    with same have "ballPositions g ! 0 = ballPositions g0 ! 0"
      and "ballVelocities g ! 0 = ballVelocities g0 ! 0" by auto
    with ret noReset ballEndPos_cong [of g 0 g0 dt] show ?thesis by auto
  next
    case (Next g' u')
    note frame = physicStep_frame [OF Next]
    from frame Cons.prems(3) have wf': "wellformed g'" by (simp add: wellformed_def)
    have pock': "pocketedOut k g'"
    proof (cases "k = i")
      case True
      with pocketedOut_slow [OF Cons.prems(4)] Next have "g' = g"
        by (simp add: physicStep_slow)
      with Cons.prems(4) show ?thesis by simp
    next
      case False
      with frame have "ballPositions g' ! k = ballPositions g ! k
            \<and> ballVelocities g' ! k = ballVelocities g ! k
          \<or> i \<notin> u \<and> \<not> length_v (ballVelocities g ! i) \<le> accurance
            \<and> findClosestBall (ballEndPos dt g i) i g = k" by blast
      then show ?thesis
      proof
        assume "ballPositions g' ! k = ballPositions g ! k
            \<and> ballVelocities g' ! k = ballVelocities g ! k"
        with Cons.prems(4) show ?thesis by (simp add: pocketedOut_def)
      next
        assume hit: "i \<notin> u \<and> \<not> length_v (ballVelocities g ! i) \<le> accurance
            \<and> findClosestBall (ballEndPos dt g i) i g = k"
        with False have "findClosestBall (ballEndPos dt g i) i g \<noteq> i" by simp
        from findClosestBall_selected [OF this] hit Cons.prems(4)
        have "reachesSentinel dt g i" by (simp add: reachesSentinel_def pocketedOut_def)
        with hit same reachesSentinel_cong [of g i g0 dt] H i7 show ?thesis by auto
      qed
    qed
    have rest': "\<forall>m\<in>set rest. m \<notin> u' \<longrightarrow>
          ballPositions g' ! m = ballPositions g0 ! m \<and> ballVelocities g' ! m = ballVelocities g0 ! m"
    proof (intro ballI impI)
      fix m assume m: "m \<in> set rest" and mu: "m \<notin> u'"
      from m Cons.prems(1) have "m \<noteq> i" by auto
      with frame mu have "ballPositions g' ! m = ballPositions g ! m
            \<and> ballVelocities g' ! m = ballVelocities g ! m" by blast
      moreover from frame mu have "m \<notin> u" by blast
      with m Cons.prems(5) have "ballPositions g ! m = ballPositions g0 ! m
            \<and> ballVelocities g ! m = ballVelocities g0 ! m" by simp
      ultimately show "ballPositions g' ! m = ballPositions g0 ! m
            \<and> ballVelocities g' ! m = ballVelocities g0 ! m" by simp
    qed
    from Cons.prems(1,2) have "distinct rest" and "\<forall>m\<in>set rest. m < 7" by simp_all
    from Cons.IH [OF this wf' pock' rest'] Next show ?thesis by simp
  qed
qed


lemma reduceVelocities_pocketedOut:
  assumes "wellformed g" and "k < 7" and "pocketedOut k g"
  shows "pocketedOut k (reduceVelocities dt g)"
proof -
  from assms(1,2) have "k < length (ballVelocities g)" by (simp add: wellformed_def)
  with assms(3) show ?thesis
    by (simp add: pocketedOut_def reduceVelocities_def reduceVelocity_def length_v_zero
        accurance_def)
qed

lemma physicLoop_pocketedOut:
  assumes "wellformed g" and "k < 7" and "pocketedOut k g"
    and "sentinelOutOfReach dt g" and "cueStays dt g"
  shows "wellformed (physicLoop bld dt g) \<and> pocketedOut k (physicLoop bld dt g)"
proof (cases "isFreeze g")
  case True
  with assms(1,3) show ?thesis by (simp add: physicLoop_def)
next
  case False
  from assms(1) have len: "length (ballVelocities g) = 7" by (simp add: wellformed_def)
  have H: "\<forall>i<7. \<not> length_v (ballVelocities g ! i) \<le> accurance \<longrightarrow> \<not> reachesSentinel dt g i"
    using assms(4) by (simp add: sentinelOutOfReach_def)
  have noReset: "length_v (ballVelocities g ! 0) \<le> accurance \<or> \<not> inPocket (ballEndPos dt g 0)"
    using assms(5) by (simp add: cueStays_def)
  have "\<exists>g' u'. physicFor bld dt [0..<7] g {} = Next g' u' \<and> wellformed g' \<and> pocketedOut k g'"
    by (rule physicFor_pocketedOut [OF H noReset _ _ assms(1,3)]) simp_all
  then obtain g' u' where run: "physicFor bld dt [0..<7] g {} = Next g' u'"
    and wf': "wellformed g'" and pock': "pocketedOut k g'" by blast
  from wf' have "wellformed (reduceVelocities dt g')"
    by (simp add: wellformed_def reduceVelocities_def)
  with reduceVelocities_pocketedOut [OF wf' assms(2) pock'] run False len
  show ?thesis by (simp add: physicLoop_def)
qed

lemma update_pocketedOut:
  assumes "wellformed g" and "k < 7" and "pocketedOut k g"
    and "sentinelOutOfReach dt g" and "cueStays dt g"
  shows "wellformed (update bld dt g) \<and> pocketedOut k (update bld dt g)"
  using physicLoop_pocketedOut [OF assms]
  by (simp add: update_def Let_def pocketedOut_def wellformed_def)

lemma mouse_pocketedOut:
  assumes "wellformed g" and "1 \<le> k" and "pocketedOut k g"
  shows "wellformed (mouseButtonPressed mx my g) \<and> pocketedOut k (mouseButtonPressed mx my g)"
    and "wellformed (mouseButtonReleased mx my g) \<and> pocketedOut k (mouseButtonReleased mx my g)"
  using assms
  by (simp_all add: mouseButtonPressed_def mouseButtonReleased_def Let_def pocketedOut_def
      wellformed_def)

lemma pocketedGame_simps:
  "ballPositions pocketedGame = ballsPositions[1 := Vector2 infinity infinity]"
  "ballVelocities pocketedGame = (replicate 7 (Vector2 (Fin 0) (Fin 0)))[0 := Vector2 (Fin 1) (Fin 0)]"
  by (simp_all add: pocketedGame_def)

lemma set_upt_7: "{0..<7::nat} = {0, 1, 2, 3, 4, 5, 6}"
  unfolding atLeastLessThan_upt upt_7 by simp

lemma onTable_far:
  assumes "onTable p"
  shows "\<not> length_v (p - Vector2 infinity infinity) < infinity"
proof (cases p)
  case (Vector2 px py)
  show ?thesis
  proof (cases px)
    case (Fin a)
    show ?thesis
    proof (cases py)
      case (Fin b)
      from assms Vector2 \<open>px = Fin a\<close> Fin have "\<bar>a\<bar> \<le> 15 / 2 \<and> \<bar>b\<bar> \<le> 4"
        by (simp add: onTable_def width_def height_def)
      then have a: "a \<le> 15 / 2" and b: "b \<le> 4" by linarith+
      from a have "(77 / 2) * (77 / 2) \<le> (46 - a) * (46 - a)"
        by (intro mult_mono) simp_all
      moreover from b have "42 * 42 \<le> (46 - b) * (46 - b)"
        by (intro mult_mono) simp_all
      ultimately have "\<not> (46 - a) * (46 - a) + (46 - b) * (46 - b) < 46 * 46" by simp
      moreover have "(a - 46) * (a - 46) = (46 - a) * (46 - a)"
        and "(b - 46) * (b - 46) = (46 - b) * (46 - b)" by (simp_all add: algebra_simps)
      ultimately show ?thesis
        using Vector2 \<open>px = Fin a\<close> Fin
        by (simp add: minus_Vector2_def infinity_def width_def height_def length_v_less)
    next
      case NaN
      with assms Vector2 show ?thesis by (simp add: onTable_def)
    qed
  next
    case NaN
    with assms Vector2 show ?thesis by (simp add: onTable_def)
  qed
qed

lemma onTable_sentinelOutOfReach:
  assumes "\<forall>i\<in>{0..<7}. \<not> length_v (ballVelocities g ! i) \<le> accurance \<longrightarrow> onTable (ballPositions g ! i)"
  shows "sentinelOutOfReach dt g"
  using assms onTable_far by (auto simp: sentinelOutOfReach_def reachesSentinel_def)

text \<open>
  Claim C6, amended: a non-cue ball that is pocketed stays at the sentinel with zero
  velocity through every run of calls in which each \<^verbatim>\<open>update\<close> neither pockets the cue
  ball nor processes a ball that is closer than \<^verbatim>\<open>infinity\<close> to the sentinel and whose
  end position is within two radii of it. By the lemma on balls on the table the
  second condition holds whenever the moving balls are on the table. This holds in every
  build: it rests on which entries of the arrays a round writes, not on what it writes.
\<close>

theorem pocketed_ball_stays:
  assumes "wellformed g" and "1 \<le> k" and "k < 7" and "pocketedOut k g" and "rackKept bld es g"
  shows "pocketedOut k (run bld es g)"
  using assms
proof (induction es arbitrary: g)
  case Nil
  then show ?case by simp
next
  case (Cons e es)
  show ?case
  proof (cases e)
    case (Update dt)
    with Cons.prems have "sentinelOutOfReach dt g" and "cueStays dt g"
      and rest: "rackKept bld es (update bld dt g)" by simp_all
    with update_pocketedOut [of g k dt] Cons.prems
    have "wellformed (update bld dt g) \<and> pocketedOut k (update bld dt g)" by simp
    with Cons.IH [of "update bld dt g"] Cons.prems(2,3) rest Update show ?thesis by simp
  next
    case (MouseButtonPressed mx my)
    with Cons.prems have rest: "rackKept bld es (mouseButtonPressed mx my g)" by simp
    with mouse_pocketedOut(1) [of g k mx my] Cons.IH [of "mouseButtonPressed mx my g"]
      Cons.prems MouseButtonPressed show ?thesis by simp
  next
    case (MouseButtonReleased mx my)
    with Cons.prems have rest: "rackKept bld es (mouseButtonReleased mx my g)" by simp
    with mouse_pocketedOut(2) [of g k mx my] Cons.IH [of "mouseButtonReleased mx my g"]
      Cons.prems MouseButtonReleased show ?thesis by simp
  qed
qed

theorem pocketed_ball_stays_witness:
  "wellformed pocketedGame \<and> (1::nat) \<le> 1 \<and> (1::nat) < 7 \<and> pocketedOut 1 pocketedGame
   \<and> rackKept valueBuild [MouseButtonReleased (Fin 0) (Fin 0), Update (Fin (1 / 60))] pocketedGame
   \<and> pocketedOut 1 (run valueBuild [MouseButtonReleased (Fin 0) (Fin 0), Update (Fin (1 / 60))] pocketedGame)"
proof -
  have wf: "wellformed pocketedGame"
    by (simp add: wellformed_def pocketedGame_simps ballsPositions_def)
  have pock: "pocketedOut 1 pocketedGame"
    by (simp add: pocketedOut_def pocketedGame_simps ballsPositions_def numeral_eq_Suc)
  have released: "ballPositions (mouseButtonReleased (Fin 0) (Fin 0) pocketedGame)
        = ballPositions pocketedGame
      \<and> ballVelocities (mouseButtonReleased (Fin 0) (Fin 0) pocketedGame)
        = ballVelocities pocketedGame"
    by (simp add: mouseButtonReleased_def Let_def pocketedGame_simps length_v_x_axis)
  have clear: "sentinelOutOfReach (Fin (1 / 60)) (mouseButtonReleased (Fin 0) (Fin 0) pocketedGame)"
    unfolding sentinelOutOfReach_def set_upt_7
    by (simp add: reachesSentinel_def ballEndPos_def released pocketedGame_simps ballsPositions_def
        numeral_eq_Suc length_v_zero geometry)
  have cue: "cueStays (Fin (1 / 60)) (mouseButtonReleased (Fin 0) (Fin 0) pocketedGame)"
    by (simp add: cueStays_def ballEndPos_def released pocketedGame_simps ballsPositions_def
        numeral_eq_Suc inPocket_def pocketsPositions_def geometry)
  have kept: "rackKept valueBuild [MouseButtonReleased (Fin 0) (Fin 0), Update (Fin (1 / 60))] pocketedGame"
    using clear cue by simp
  show ?thesis
    using pocketed_ball_stays [OF wf _ _ pock kept] wf pock kept by simp
qed

end
